theory Spec2Isabelle
  imports Complex_Main "HOL-Library.AList"
begin

section \<open>Background tasks of the document application\<close>

text \<open>
  The theory embeds the task entry points of \<^verbatim>\<open>apps/document/tasks.py\<close>.  The
  tasks are orchestration code: they read rows through the ORM, call collaborators
  (the field detection package, the file storage, the task queue) and write rows back.
  Rows are records, tables are lists of rows, the effects on collaborators are kept as
  explicit values of the state, and every exception the Python can raise inside the
  modelled part is a value \<open>Inl e\<close> of the result.
\<close>

subsection \<open>Exceptions\<close>

datatype error =
    RuntimeError
  | ValueError
  | KeyError
  | DoesNotExist
  | ZeroDivisionError
  | AttributeError
  | TypeError
  | FileExistsError
  | External string

subsection \<open>Chunking and the task queue\<close>

text \<open>
  Modelled from the spec: \<^verbatim>\<open>chunks\<close> of \<^verbatim>\<open>apps.common.collection_utils\<close> is
  imported by the tasks module and is not part of the sources at hand.  The callers'
  docstrings read "Starts multiple tasks, N doc ids per task": the helper yields the
  successive slices of at most \<open>n\<close> elements of its argument.  A chunk size of zero is
  outside that description; the model yields no chunk for it.
\<close>

function chunks :: "'a list \<Rightarrow> nat \<Rightarrow> 'a list list" where
  "chunks l n = (if l = [] \<or> n = 0 then [] else take n l # chunks (drop n l) n)"
  by pat_completeness auto
termination
  by (relation "measure (\<lambda>(l, n). length l)") auto

declare chunks.simps [simp del]

text \<open>
  Modelled from the spec: \<^verbatim>\<open>call_task_func\<close> of \<^verbatim>\<open>apps.task.tasks\<close> (not part of
  the sources at hand) hands one call of a task function, with its arguments and the
  calling user, to the host task queue.  The queue is the list of the calls made so far,
  oldest first.
\<close>

datatype task_args =
    StatusChangedArgs "int list" int "int option"
  | AssigneeChangedArgs "int list" "int option" "int option"

datatype queued_task = Queued string task_args "int option"

definition call_task_func ::
  "string \<Rightarrow> task_args \<Rightarrow> int option \<Rightarrow> queued_task list \<Rightarrow> queued_task list" where
  "call_task_func task_func args user_id queue = queue @ [Queued task_func args user_id]"

fun queued_doc_ids :: "queued_task \<Rightarrow> int list" where
  "queued_doc_ids (Queued _ (StatusChangedArgs ids _ _) _) = ids"
| "queued_doc_ids (Queued _ (AssigneeChangedArgs ids _ _) _) = ids"

text \<open>
  \<^verbatim>\<open>plan_process_documents_status_changed\<close> and its sibling for the assignee: one
  call of the main task per chunk.  \<^verbatim>\<open>DOC_NUMBER_PER_MAIN_TASK\<close> is a constant of
  \<^verbatim>\<open>apps.document.constants\<close>, which is not at hand; it is the first parameter.
\<close>

definition plan_process_documents_status_changed ::
  "nat \<Rightarrow> int list \<Rightarrow> int \<Rightarrow> int option \<Rightarrow> queued_task list \<Rightarrow> queued_task list" where
  "plan_process_documents_status_changed DOC_NUMBER_PER_MAIN_TASK doc_ids new_status_id
       changed_by_user_id queue =
     foldl (\<lambda>q doc_ids_chunk.
              call_task_func ''Documents Status Changed''
                (StatusChangedArgs doc_ids_chunk new_status_id changed_by_user_id)
                changed_by_user_id q)
       queue (chunks doc_ids DOC_NUMBER_PER_MAIN_TASK)"

definition plan_process_documents_assignee_changed ::
  "nat \<Rightarrow> int list \<Rightarrow> int option \<Rightarrow> int option \<Rightarrow> queued_task list \<Rightarrow> queued_task list" where
  "plan_process_documents_assignee_changed DOC_NUMBER_PER_MAIN_TASK doc_ids new_assignee_id
       changed_by_user_id queue =
     foldl (\<lambda>q doc_ids_chunk.
              call_task_func ''Documents Assignee Changed''
                (AssigneeChangedArgs doc_ids_chunk new_assignee_id changed_by_user_id)
                changed_by_user_id q)
       queue (chunks doc_ids DOC_NUMBER_PER_MAIN_TASK)"

subsection \<open>Facts about chunking\<close>

lemma chunks_Nil [simp]: "chunks [] n = []"
  by (simp add: chunks.simps)

lemma chunks_step: "l \<noteq> [] \<Longrightarrow> 0 < n \<Longrightarrow> chunks l n = take n l # chunks (drop n l) n"
  by (subst chunks.simps) simp

lemma concat_chunks: "0 < n \<Longrightarrow> concat (chunks l n) = l"
proof (induction l n rule: chunks.induct)
  case (1 l n)
  show ?case
  proof (cases "l = []")
    case True
    then show ?thesis by simp
  next
    case False
    with 1 show ?thesis by (simp add: chunks_step)
  qed
qed

lemma chunks_bounds: "c \<in> set (chunks l n) \<Longrightarrow> c \<noteq> [] \<and> length c \<le> n"
proof (induction l n arbitrary: c rule: chunks.induct)
  case (1 l n)
  show ?case
  proof (cases "l = [] \<or> n = 0")
    case True
    with 1(2) show ?thesis by (auto simp: chunks.simps)
  next
    case False
    with 1(2) have "c = take n l \<or> c \<in> set (chunks (drop n l) n)"
      by (simp add: chunks_step)
    then show ?thesis
    proof
      assume "c = take n l"
      with False show ?thesis by auto
    next
      assume "c \<in> set (chunks (drop n l) n)"
      with 1(1) False show ?thesis by blast
    qed
  qed
qed

lemma foldl_call_task_func:
  "foldl (\<lambda>q c. call_task_func f (mk c) u q) queue cs = queue @ map (\<lambda>c. Queued f (mk c) u) cs"
  by (induction cs arbitrary: queue) (simp_all add: call_task_func_def)


subsection \<open>Planning the status and assignee changes\<close>

text \<open>
  Claim C1.  For a positive \<^verbatim>\<open>DOC_NUMBER_PER_MAIN_TASK\<close>, both planning functions
  append to the queue exactly one call of their main task per chunk of the given document
  ids, in the order of the chunks; no chunk is empty or longer than the constant; the
  chunks concatenated are the input; so the document ids carried by the queued calls, read
  in queue order, are the input sequence: every id is queued once, in its original place.
\<close>

theorem plan_process_documents_one_task_per_chunk:
  assumes "0 < n"
  shows "plan_process_documents_status_changed n doc_ids new_status_id user queue =
           queue @ map (\<lambda>c. Queued ''Documents Status Changed''
                                (StatusChangedArgs c new_status_id user) user) (chunks doc_ids n)
       \<and> plan_process_documents_assignee_changed n doc_ids new_assignee_id user queue =
           queue @ map (\<lambda>c. Queued ''Documents Assignee Changed''
                                (AssigneeChangedArgs c new_assignee_id user) user) (chunks doc_ids n)
       \<and> list_all (\<lambda>c. c \<noteq> [] \<and> length c \<le> n) (chunks doc_ids n)
       \<and> concat (chunks doc_ids n) = doc_ids
       \<and> concat (map queued_doc_ids
            (plan_process_documents_status_changed n doc_ids new_status_id user [])) = doc_ids
       \<and> concat (map queued_doc_ids
            (plan_process_documents_assignee_changed n doc_ids new_assignee_id user [])) = doc_ids"
proof -
  have st: "plan_process_documents_status_changed n doc_ids new_status_id user q =
           q @ map (\<lambda>c. Queued ''Documents Status Changed''
                                (StatusChangedArgs c new_status_id user) user) (chunks doc_ids n)"
    for q
    unfolding plan_process_documents_status_changed_def
    by (rule foldl_call_task_func [where mk = "\<lambda>c. StatusChangedArgs c new_status_id user"])
  have asg: "plan_process_documents_assignee_changed n doc_ids new_assignee_id user q =
           q @ map (\<lambda>c. Queued ''Documents Assignee Changed''
                                (AssigneeChangedArgs c new_assignee_id user) user) (chunks doc_ids n)"
    for q
    unfolding plan_process_documents_assignee_changed_def
    by (rule foldl_call_task_func [where mk = "\<lambda>c. AssigneeChangedArgs c new_assignee_id user"])
  have bounds: "list_all (\<lambda>c. c \<noteq> [] \<and> length c \<le> n) (chunks doc_ids n)"
    unfolding list_all_iff using chunks_bounds by blast
  have cc: "concat (chunks doc_ids n) = doc_ids"
    using assms by (rule concat_chunks)
  have ids1: "map queued_doc_ids (map (\<lambda>c. Queued ''Documents Status Changed''
                 (StatusChangedArgs c new_status_id user) user) cs) = cs" for cs
    by (induction cs) simp_all
  have ids2: "map queued_doc_ids (map (\<lambda>c. Queued ''Documents Assignee Changed''
                 (AssigneeChangedArgs c new_assignee_id user) user) cs) = cs" for cs
    by (induction cs) simp_all
  show ?thesis
    using st [of queue] asg [of queue] bounds cc
    by (simp only: st asg ids1 ids2 append_Nil simp_thms)
qed

theorem plan_process_documents_one_task_per_chunk_witness:
  "(0::nat) < 2
   \<and> plan_process_documents_status_changed 2 [11, 12, 13, 14, 15] 3 (Some 7) [] =
       [Queued ''Documents Status Changed'' (StatusChangedArgs [11, 12] 3 (Some 7)) (Some 7),
        Queued ''Documents Status Changed'' (StatusChangedArgs [13, 14] 3 (Some 7)) (Some 7),
        Queued ''Documents Status Changed'' (StatusChangedArgs [15] 3 (Some 7)) (Some 7)]
   \<and> plan_process_documents_assignee_changed 2 [11, 12, 13, 14, 15] None (Some 7) [] =
       [Queued ''Documents Assignee Changed'' (AssigneeChangedArgs [11, 12] None (Some 7)) (Some 7),
        Queued ''Documents Assignee Changed'' (AssigneeChangedArgs [13, 14] None (Some 7)) (Some 7),
        Queued ''Documents Assignee Changed'' (AssigneeChangedArgs [15] None (Some 7)) (Some 7)]
   \<and> concat (map queued_doc_ids
        (plan_process_documents_status_changed 2 [11, 12, 13, 14, 15] 3 (Some 7) []))
       = [11, 12, 13, 14, 15]"
proof -
  have pos: "(0::nat) < 2" by simp
  have ch: "chunks [11, 12, 13, 14, 15 :: int] 2 = [[11, 12], [13, 14], [15]]"
    by (simp add: chunks.simps)
  show ?thesis
    using plan_process_documents_one_task_per_chunk
            [OF pos, of "[11, 12, 13, 14, 15]" 3 "Some 7" "[]" None]
    by (simp add: ch)
qed


section \<open>Exporting documents\<close>














subsection \<open>Packs of a sorted list\<close>








subsection \<open>The export loop\<close>





subsection \<open>The exported archive\<close>







section \<open>Importing a document type\<close>

text \<open>
  \<^verbatim>\<open>ImportDocumentType.process\<close> turns the action string into three flags, reads the
  uploaded JSON from the database cache, hands it to \<^verbatim>\<open>import_document_type\<close> and
  removes the cached bytes in a \<^verbatim>\<open>finally\<close> clause; after a saving import with
  \<^verbatim>\<open>update_cache\<close> it adapts the raw table and starts the sub-tasks that cache the
  field values, fifty documents each.
\<close>

definition action_flags :: "string \<Rightarrow> error + (bool \<times> bool \<times> bool)" where
  "action_flags action =
     (if action = ''validate'' then Inr (False, False, False)
      else if action = ''validate|import'' then Inr (True, False, False)
      else if action = ''import|auto_fix|retain_missing_objects'' then Inr (True, True, False)
      else if action = ''import|auto_fix|remove_missing_objects'' then Inr (True, True, True)
      else Inl RuntimeError)"

text \<open>
  The collaborators of the task: Python's \<^verbatim>\<open>int\<close> on a string (it raises
  \<^verbatim>\<open>ValueError\<close> on what is no numeral), the constant \<^verbatim>\<open>CURRENT_VERSION\<close> of the
  scheme migrations, \<^verbatim>\<open>import_document_type\<close> of \<^verbatim>\<open>apps.dump\<close> (it returns the
  document type or raises), the application variable that disables the raw table cache,
  and the query for the ids of the documents of a type.
\<close>

record 'dt import_env =
  py_int :: "string \<Rightarrow> error + int"
  CURRENT_VERSION :: int
  import_document_type :: "string option \<Rightarrow> bool \<Rightarrow> bool \<Rightarrow> bool \<Rightarrow> int \<Rightarrow> error + 'dt"
  DISABLE_RAW_DB_CACHING :: bool
  document_ids_of_type :: "'dt \<Rightarrow> int list"

text \<open>
  The state: the database cache (keys to bytes), the calls made to
  \<^verbatim>\<open>import_document_type\<close> with their arguments, the document types whose raw table
  was adapted, and the lists of document ids handed to the caching sub-tasks.
\<close>

record 'dt import_state =
  db_cache :: "string \<rightharpoonup> string"
  import_calls :: "(string option \<times> bool \<times> bool \<times> bool \<times> int) list"
  adapted_types :: "'dt list"
  cache_sub_tasks :: "int list list"

text \<open>
  Modelled from the spec: \<^verbatim>\<open>DbCache\<close> of \<^verbatim>\<open>apps.common.db_cache\<close> is not part of
  the sources at hand.  \<^verbatim>\<open>DbCache.get\<close> reads the bytes stored under a key (nothing
  when the key is absent) and \<^verbatim>\<open>DbCache.clean_cache\<close> removes the entry of a key.
\<close>

definition DbCache_get :: "string \<Rightarrow> 'dt import_state \<Rightarrow> string option" where
  "DbCache_get key st = db_cache st key"

definition DbCache_clean_cache :: "string \<Rightarrow> 'dt import_state \<Rightarrow> 'dt import_state" where
  "DbCache_clean_cache key st = st\<lparr>db_cache := (db_cache st)(key := None)\<rparr>"

text \<open>
  \<^verbatim>\<open>int(source_version) if source_version else CURRENT_VERSION\<close>: an absent or empty
  string selects the current version.
\<close>

definition source_version_of :: "'dt import_env \<Rightarrow> string option \<Rightarrow> error + int" where
  "source_version_of env source_version =
     (case source_version of
        None \<Rightarrow> Inr (CURRENT_VERSION env)
      | Some s \<Rightarrow> if s = [] then Inr (CURRENT_VERSION env) else py_int env s)"

text \<open>
  The part after the \<^verbatim>\<open>finally\<close> clause (lines 822 to 836), for a document type
  that was imported.
\<close>

definition update_cache_after_import ::
  "'dt import_env \<Rightarrow> 'dt \<Rightarrow> 'dt import_state \<Rightarrow> 'dt import_state" where
  "update_cache_after_import env document_type st =
     (let st1 = (if \<not> DISABLE_RAW_DB_CACHING env
                 then st\<lparr>adapted_types := adapted_types st @ [document_type]\<rparr> else st);
          ids = document_ids_of_type env document_type
      in st1\<lparr>cache_sub_tasks := cache_sub_tasks st1 @ chunks ids 50\<rparr>)"

definition ImportDocumentType_process ::
  "'dt import_env \<Rightarrow> (string \<rightharpoonup> string) \<Rightarrow> string \<Rightarrow> bool \<Rightarrow> string option
     \<Rightarrow> 'dt import_state \<Rightarrow> (error + unit) \<times> 'dt import_state" where
  "ImportDocumentType_process env document_type_config_json_file action update_cache
       source_version st =
     (case action_flags action of
        Inl e \<Rightarrow> (Inl e, st)
      | Inr (save, auto_fix_validation_errors, remove_missed_objects) \<Rightarrow>
     (case source_version_of env source_version of
        Inl e \<Rightarrow> (Inl e, st)
      | Inr version \<Rightarrow>
     (case document_type_config_json_file ''cache_key'' of
        None \<Rightarrow> (Inl KeyError, st)
      | Some key \<Rightarrow>
          (let json_bytes = DbCache_get key st;
               st1 = st\<lparr>import_calls := import_calls st @
                       [(json_bytes, save, auto_fix_validation_errors, remove_missed_objects, version)]\<rparr>;
               imported = import_document_type env json_bytes save auto_fix_validation_errors
                            remove_missed_objects version;
               st2 = DbCache_clean_cache key st1
           in case imported of
                Inl e \<Rightarrow> (Inl e, st2)
              | Inr document_type \<Rightarrow>
                  if \<not> (save \<and> update_cache) then (Inr (), st2)
                  else (Inr (), update_cache_after_import env document_type st2)))))"

text \<open>
  An environment for evaluation: the only numeral is \<^verbatim>\<open>'3'\<close>, the current version is
  5, and the import raises when the cache held no bytes.
\<close>

definition demo_import_env :: "string import_env" where
  "demo_import_env =
     \<lparr>py_int = (\<lambda>s. if s = ''3'' then Inr 3 else Inl ValueError),
      CURRENT_VERSION = 5,
      import_document_type = (\<lambda>json_bytes save auto_fix remove_missed version.
         case json_bytes of None \<Rightarrow> Inl (External ''no json'') | Some _ \<Rightarrow> Inr ''lease''),
      DISABLE_RAW_DB_CACHING = False,
      document_ids_of_type = (\<lambda>document_type. [1, 2, 3])\<rparr>"

definition demo_import_state :: "string import_state" where
  "demo_import_state =
     \<lparr>db_cache = [''key1'' \<mapsto> ''{}''], import_calls = [], adapted_types = [],
      cache_sub_tasks = []\<rparr>"

subsection \<open>Actions, and the cache after the import\<close>

lemma db_cache_update_cache_after_import [simp]:
  "db_cache (update_cache_after_import env document_type st) = db_cache st"
  by (simp add: update_cache_after_import_def Let_def)

lemma import_calls_update_cache_after_import [simp]:
  "import_calls (update_cache_after_import env document_type st) = import_calls st"
  by (simp add: update_cache_after_import_def Let_def)

text \<open>
  Claim C3.  The four known action strings give the four flag triples, in the order
  (save, auto_fix_validation_errors, remove_missed_objects).  Any other action string
  ends the task in \<^verbatim>\<open>RuntimeError\<close> before anything is touched.  Once the action and
  the source version are read and the upload names its cache key,
  \<^verbatim>\<open>import_document_type\<close> is called once with the cached bytes, the three flags and
  the version, and afterwards the entry of the key is gone from the cache and the other
  entries are as before, both when the import returns and when it raises; what it raises
  is what the task raises.
\<close>

theorem import_document_type_flags_and_cache_cleanup:
  "action_flags ''validate'' = Inr (False, False, False)
   \<and> action_flags ''validate|import'' = Inr (True, False, False)
   \<and> action_flags ''import|auto_fix|retain_missing_objects'' = Inr (True, True, False)
   \<and> action_flags ''import|auto_fix|remove_missing_objects'' = Inr (True, True, True)
   \<and> (action \<notin> {''validate'', ''validate|import'', ''import|auto_fix|retain_missing_objects'',
                   ''import|auto_fix|remove_missing_objects''}
        \<longrightarrow> ImportDocumentType_process env file action update_cache source_version st
              = (Inl RuntimeError, st))
   \<and> (action_flags action = Inr (save, auto_fix, remove_missed)
        \<and> source_version_of env source_version = Inr version
        \<and> file ''cache_key'' = Some key
        \<longrightarrow> import_calls (snd (ImportDocumentType_process env file action update_cache
                               source_version st))
              = import_calls st @ [(db_cache st key, save, auto_fix, remove_missed, version)]
            \<and> db_cache (snd (ImportDocumentType_process env file action update_cache
                               source_version st))
              = (db_cache st)(key := None)
            \<and> (\<forall>e. import_document_type env (db_cache st key) save auto_fix remove_missed version
                       = Inl e
                  \<longrightarrow> fst (ImportDocumentType_process env file action update_cache
                               source_version st) = Inl e)
            \<and> (\<forall>document_type.
                  import_document_type env (db_cache st key) save auto_fix remove_missed version
                       = Inr document_type
                  \<longrightarrow> fst (ImportDocumentType_process env file action update_cache
                               source_version st) = Inr ()))"
proof -
  have flags: "action_flags ''validate'' = Inr (False, False, False)
   \<and> action_flags ''validate|import'' = Inr (True, False, False)
   \<and> action_flags ''import|auto_fix|retain_missing_objects'' = Inr (True, True, False)
   \<and> action_flags ''import|auto_fix|remove_missing_objects'' = Inr (True, True, True)"
    by (simp add: action_flags_def)
  have unknown: "ImportDocumentType_process env file action update_cache source_version st
              = (Inl RuntimeError, st)"
    if "action \<notin> {''validate'', ''validate|import'', ''import|auto_fix|retain_missing_objects'',
                   ''import|auto_fix|remove_missing_objects''}"
  proof -
    from that have "action_flags action = Inl RuntimeError"
      by (simp add: action_flags_def)
    then show ?thesis by (simp add: ImportDocumentType_process_def)
  qed
  have known: "import_calls (snd (ImportDocumentType_process env file action update_cache
                               source_version st))
              = import_calls st @ [(db_cache st key, save, auto_fix, remove_missed, version)]
            \<and> db_cache (snd (ImportDocumentType_process env file action update_cache
                               source_version st))
              = (db_cache st)(key := None)
            \<and> (\<forall>e. import_document_type env (db_cache st key) save auto_fix remove_missed version
                       = Inl e
                  \<longrightarrow> fst (ImportDocumentType_process env file action update_cache
                               source_version st) = Inl e)
            \<and> (\<forall>document_type.
                  import_document_type env (db_cache st key) save auto_fix remove_missed version
                       = Inr document_type
                  \<longrightarrow> fst (ImportDocumentType_process env file action update_cache
                               source_version st) = Inr ())"
    if "action_flags action = Inr (save, auto_fix, remove_missed)"
      and "source_version_of env source_version = Inr version"
      and "file ''cache_key'' = Some key"
  proof (cases "import_document_type env (db_cache st key) save auto_fix remove_missed version")
    case (Inl e)
    with that show ?thesis
      by (simp add: ImportDocumentType_process_def DbCache_get_def DbCache_clean_cache_def Let_def)
  next
    case (Inr document_type)
    with that show ?thesis
      by (simp add: ImportDocumentType_process_def DbCache_get_def DbCache_clean_cache_def Let_def)
  qed
  from flags unknown known show ?thesis by blast
qed

theorem import_document_type_flags_and_cache_cleanup_witness:
  "ImportDocumentType_process demo_import_env [''cache_key'' \<mapsto> ''key1''] ''import'' True None
       demo_import_state = (Inl RuntimeError, demo_import_state)
   \<and> action_flags ''import|auto_fix|remove_missing_objects'' = Inr (True, True, True)
   \<and> source_version_of demo_import_env (Some ''3'') = Inr 3
   \<and> import_calls (snd (ImportDocumentType_process demo_import_env [''cache_key'' \<mapsto> ''key1'']
        ''import|auto_fix|remove_missing_objects'' True (Some ''3'') demo_import_state))
       = [(Some ''{}'', True, True, True, 3)]
   \<and> db_cache (snd (ImportDocumentType_process demo_import_env [''cache_key'' \<mapsto> ''key1'']
        ''import|auto_fix|remove_missing_objects'' True (Some ''3'') demo_import_state)) ''key1''
       = None
   \<and> fst (ImportDocumentType_process demo_import_env [''cache_key'' \<mapsto> ''key1'']
        ''import|auto_fix|remove_missing_objects'' True (Some ''3'') demo_import_state) = Inr ()
   \<and> fst (ImportDocumentType_process demo_import_env [''cache_key'' \<mapsto> ''key2'']
        ''validate'' False None demo_import_state) = Inl (External ''no json'')
   \<and> db_cache (snd (ImportDocumentType_process demo_import_env [''cache_key'' \<mapsto> ''key2'']
        ''validate'' False None demo_import_state)) ''key2'' = None"
proof -
  have a: "action_flags ''import|auto_fix|remove_missing_objects'' = Inr (True, True, True)"
    and b: "action_flags ''validate'' = Inr (False, False, False)"
    and c: "''import'' \<notin> {''validate'', ''validate|import'',
              ''import|auto_fix|retain_missing_objects'', ''import|auto_fix|remove_missing_objects''}"
    by (simp_all add: action_flags_def)
  have v: "source_version_of demo_import_env (Some ''3'') = Inr 3"
    and w: "source_version_of demo_import_env None = Inr 5"
    by (simp_all add: source_version_of_def demo_import_env_def)
  have k1: "[''cache_key'' \<mapsto> ''key1''] ''cache_key'' = Some ''key1''"
    and k2: "[''cache_key'' \<mapsto> ''key2''] ''cache_key'' = Some ''key2''"
    by simp_all
  have i1: "import_document_type demo_import_env (db_cache demo_import_state ''key1'')
              True True True 3 = Inr ''lease''"
    and i2: "import_document_type demo_import_env (db_cache demo_import_state ''key2'')
              False False False 5 = Inl (External ''no json'')"
    by (simp_all add: demo_import_env_def demo_import_state_def)
  note t1 = import_document_type_flags_and_cache_cleanup
              [of "''import''" demo_import_env "[''cache_key'' \<mapsto> ''key1'']" True None
                  demo_import_state]
  note t2 = import_document_type_flags_and_cache_cleanup
              [of "''import|auto_fix|remove_missing_objects''" demo_import_env
                  "[''cache_key'' \<mapsto> ''key1'']" True "Some ''3''" demo_import_state
                  True True True 3 "''key1''"]
  note t3 = import_document_type_flags_and_cache_cleanup
              [of "''validate''" demo_import_env
                  "[''cache_key'' \<mapsto> ''key2'']" False None demo_import_state
                  False False False 5 "''key2''"]
  note unknown = t1 [THEN conjunct2, THEN conjunct2, THEN conjunct2, THEN conjunct2,
                     THEN conjunct1, THEN mp, OF c]
  note known2 = t2 [THEN conjunct2, THEN conjunct2, THEN conjunct2, THEN conjunct2,
                    THEN conjunct2, THEN mp, OF conjI [OF a conjI [OF v k1]]]
  note known3 = t3 [THEN conjunct2, THEN conjunct2, THEN conjunct2, THEN conjunct2,
                    THEN conjunct2, THEN mp, OF conjI [OF b conjI [OF w k2]]]
  have calls: "import_calls (snd (ImportDocumentType_process demo_import_env
        [''cache_key'' \<mapsto> ''key1''] ''import|auto_fix|remove_missing_objects'' True (Some ''3'')
        demo_import_state)) = [(Some ''{}'', True, True, True, 3)]"
    unfolding known2 [THEN conjunct1] by (simp add: demo_import_state_def)
  have gone1: "db_cache (snd (ImportDocumentType_process demo_import_env
        [''cache_key'' \<mapsto> ''key1''] ''import|auto_fix|remove_missing_objects'' True (Some ''3'')
        demo_import_state)) ''key1'' = None"
    unfolding known2 [THEN conjunct2, THEN conjunct1] by simp
  note ok1 = known2 [THEN conjunct2, THEN conjunct2, THEN conjunct2, THEN spec, THEN mp, OF i1]
  note raised = known3 [THEN conjunct2, THEN conjunct2, THEN conjunct1, THEN spec, THEN mp, OF i2]
  have gone2: "db_cache (snd (ImportDocumentType_process demo_import_env
        [''cache_key'' \<mapsto> ''key2''] ''validate'' False None demo_import_state)) ''key2'' = None"
    unfolding known3 [THEN conjunct2, THEN conjunct1] by simp
  from unknown a v calls gone1 ok1 raised gone2 show ?thesis
    by (intro conjI)
qed


section \<open>Training field detector models\<close>

text \<open>
  Rows of the \<^verbatim>\<open>DocumentField\<close> and \<^verbatim>\<open>ClassifierModel\<close> tables, with the columns
  the tasks read or write.  A classifier model that was never saved has no primary key.
\<close>

record document_field =
  field_uid :: string
  field_code :: string
  field_document_type :: string
  dirty :: bool
  trained_after_documents_number :: int

record classifier_model =
  model_pk :: "nat option"
  model_document_field :: string
  field_detection_accuracy :: "rat option"
  classifier_accuracy_report_in_sample :: "string option"
  classifier_accuracy_report_out_of_sample :: "string option"

text \<open>
  One call of \<^verbatim>\<open>field_detection.train_document_field_detector_model\<close>: the field,
  the training projects, and the two options that only \<^verbatim>\<open>TrainAndTest\<close> passes.
\<close>

record train_request =
  req_field :: document_field
  req_train_data_project_ids :: "int list option"
  req_options :: "(bool option \<times> bool option) option"

text \<open>
  The collaborators: the trainer (it returns a new, unsaved model, or \<^verbatim>\<open>None\<close>, or
  raises), the methods \<^verbatim>\<open>can_retrain\<close> and \<^verbatim>\<open>is_detectable\<close> of a field, and
  the queries of the field detection repository and of the document table.
\<close>

record train_env =
  train_document_field_detector_model :: "train_request \<Rightarrow> error + classifier_model option"
  can_retrain :: "document_field \<Rightarrow> bool"
  is_detectable :: "document_field \<Rightarrow> bool"
  get_approved_documents_number :: "document_field \<Rightarrow> error + int"
  documents_of_projects :: "int list \<Rightarrow> string \<Rightarrow> int list"
  get_qs_active_modified_document_ids :: "document_field \<Rightarrow> int list \<Rightarrow> int list"
  get_qs_finished_document_ids :: "string \<Rightarrow> int list \<Rightarrow> int list"

text \<open>
  The database and the effects on collaborators: the two tables, the sequence of the
  model keys, the calls made to the trainer, and the sub-tasks handed to the queue.
\<close>

record train_db =
  document_fields :: "document_field list"
  classifier_models :: "classifier_model list"
  next_model_pk :: nat
  train_calls :: "train_request list"
  test_sub_tasks :: "(string \<times> int) list"
  join_sub_tasks :: "(string \<times> nat option) list"

text \<open>\<^verbatim>\<open>DocumentField.objects.get(pk=...)\<close>; it raises \<^verbatim>\<open>DoesNotExist\<close> without a row.\<close>

definition get_document_field :: "string \<Rightarrow> train_db \<Rightarrow> document_field option" where
  "get_document_field uid db = find (\<lambda>f. field_uid f = uid) (document_fields db)"

text \<open>\<^verbatim>\<open>field.save()\<close> of a field that was loaded from the table: its row is updated.\<close>

definition save_document_field :: "document_field \<Rightarrow> train_db \<Rightarrow> train_db" where
  "save_document_field field db =
     db\<lparr>document_fields :=
          map (\<lambda>row. if field_uid row = field_uid field then field else row) (document_fields db)\<rparr>"

text \<open>\<^verbatim>\<open>ClassifierModel.objects.filter(document_field=field).delete()\<close>\<close>

definition delete_models_of_field :: "string \<Rightarrow> train_db \<Rightarrow> train_db" where
  "delete_models_of_field uid db =
     db\<lparr>classifier_models := filter (\<lambda>m. model_document_field m \<noteq> uid) (classifier_models db)\<rparr>"

text \<open>
  \<^verbatim>\<open>model.save()\<close>: a model without a key is inserted under the next key of the
  sequence; a model with a key updates the row of that key, or is inserted when there is
  none.  The saved instance is returned with its key.
\<close>

definition save_classifier_model ::
  "classifier_model \<Rightarrow> train_db \<Rightarrow> classifier_model \<times> train_db" where
  "save_classifier_model m db =
     (case model_pk m of
        None \<Rightarrow>
          (let m' = m\<lparr>model_pk := Some (next_model_pk db)\<rparr>
           in (m', db\<lparr>classifier_models := classifier_models db @ [m'],
                      next_model_pk := Suc (next_model_pk db)\<rparr>))
      | Some k \<Rightarrow>
          if list_ex (\<lambda>row. model_pk row = Some k) (classifier_models db)
          then (m, db\<lparr>classifier_models :=
                       map (\<lambda>row. if model_pk row = Some k then m else row) (classifier_models db)\<rparr>)
          else (m, db\<lparr>classifier_models := classifier_models db @ [m]\<rparr>))"

text \<open>
  The step the three training operations share: call the trainer and, when it returns
  a model, delete the stored models of the field and save the new one
  (lines 142 to 146, 184 to 189 and 266 to 274).
\<close>

definition train_and_replace ::
  "train_env \<Rightarrow> train_request \<Rightarrow> train_db \<Rightarrow> (error + classifier_model option) \<times> train_db" where
  "train_and_replace env req db =
     (let db1 = db\<lparr>train_calls := train_calls db @ [req]\<rparr>
      in case train_document_field_detector_model env req of
           Inl e \<Rightarrow> (Inl e, db1)
         | Inr None \<Rightarrow> (Inr None, db1)
         | Inr (Some new_model) \<Rightarrow>
             (case save_classifier_model new_model
                     (delete_models_of_field (field_uid (req_field req)) db1) of
                (saved, db2) \<Rightarrow> (Inr (Some saved), db2)))"

definition train_model_for_field ::
  "train_env \<Rightarrow> string \<Rightarrow> train_db \<Rightarrow> (error + unit) \<times> train_db" where
  "train_model_for_field env field_uid' db =
     (case get_document_field field_uid' db of
        None \<Rightarrow> (Inl DoesNotExist, db)
      | Some field \<Rightarrow>
          (case train_and_replace env
                  \<lparr>req_field = field, req_train_data_project_ids = None, req_options = None\<rparr> db of
             (Inl e, db1) \<Rightarrow> (Inl e, db1)
           | (Inr _, db1) \<Rightarrow> (Inr (), db1)))"

definition train_model_for_dirty_field ::
  "train_env \<Rightarrow> string \<Rightarrow> train_db \<Rightarrow> (error + unit) \<times> train_db" where
  "train_model_for_dirty_field env dirty_field_id db =
     (case get_document_field dirty_field_id db of
        None \<Rightarrow> (Inl DoesNotExist, db)
      | Some loaded \<Rightarrow>
          if can_retrain env loaded then
            (let dirty_field = loaded\<lparr>dirty := False\<rparr>;
                 db1 = save_document_field dirty_field db
             in case get_approved_documents_number env dirty_field of
                  Inl e \<Rightarrow> (Inl e, db1)
                | Inr train_docs_count \<Rightarrow>
                    if train_docs_count \<ge> trained_after_documents_number dirty_field then
                      (case train_and_replace env
                              \<lparr>req_field = dirty_field, req_train_data_project_ids = None,
                               req_options = None\<rparr> db1 of
                         (Inl e, db2) \<Rightarrow> (Inl e, db2)
                       | (Inr _, db2) \<Rightarrow> (Inr (), db2))
                    else (Inr (), db1))
          else (Inr (), db))"

text \<open>The keyword arguments of \<^verbatim>\<open>TrainAndTest.process\<close>.\<close>

record train_and_test_kwargs =
  document_field_id :: string
  skip_training :: bool
  use_only_confirmed_field_values_for_training :: "bool option"
  train_data_project_ids :: "int list option"
  split_and_log_out_of_sample_test_report :: "bool option"
  skip_testing :: bool
  use_only_confirmed_field_values_for_testing :: bool
  test_data_projects_ids :: "int list option"

text \<open>
  The testing half of \<^verbatim>\<open>TrainAndTest.process\<close> (lines 287 to 316): one test sub-task
  per test document and, when there is one at least, the joining sub-task with the key of
  the new model.  The confirmed documents are a Python set; here they are a list without
  repetition.
\<close>

definition plan_tests ::
  "train_env \<Rightarrow> train_and_test_kwargs \<Rightarrow> document_field \<Rightarrow> classifier_model option
     \<Rightarrow> train_db \<Rightarrow> train_db" where
  "plan_tests env kw field new_model db =
     (if skip_testing kw then db
      else case test_data_projects_ids kw of
        None \<Rightarrow> db
      | Some projects \<Rightarrow>
          if projects = [] then db
          else
            (let test_document_ids =
                   (if \<not> use_only_confirmed_field_values_for_testing kw
                    then documents_of_projects env projects (field_document_type field)
                    else remdups (get_qs_active_modified_document_ids env field projects
                                  @ get_qs_finished_document_ids env (field_document_type field)
                                      projects));
                 test_tasks_args = map (\<lambda>test_document_id. (field_uid field, test_document_id))
                                     test_document_ids
             in if test_tasks_args \<noteq> []
                then db\<lparr>test_sub_tasks := test_sub_tasks db @ test_tasks_args,
                        join_sub_tasks := join_sub_tasks db @
                          [(field_uid field,
                            case new_model of None \<Rightarrow> None | Some m \<Rightarrow> model_pk m)]\<rparr>
                else db))"

definition TrainAndTest_process ::
  "train_env \<Rightarrow> train_and_test_kwargs \<Rightarrow> train_db \<Rightarrow> (error + unit) \<times> train_db" where
  "TrainAndTest_process env kw db =
     (case get_document_field (document_field_id kw) db of
        None \<Rightarrow> (Inl DoesNotExist, db)
      | Some field \<Rightarrow>
          (case (if \<not> skip_training kw
                 then train_and_replace env
                        \<lparr>req_field = field,
                         req_train_data_project_ids = train_data_project_ids kw,
                         req_options = Some (use_only_confirmed_field_values_for_training kw,
                                             split_and_log_out_of_sample_test_report kw)\<rparr> db
                 else (Inr None, db)) of
             (Inl e, db1) \<Rightarrow> (Inl e, db1)
           | (Inr new_model, db1) \<Rightarrow> (Inr (), plan_tests env kw field new_model db1)))"

subsection \<open>What one training step does to the tables\<close>

lemma train_and_replace_new_model:
  assumes "train_document_field_detector_model env req = Inr (Some m)"
    and "model_pk m = None"
  shows "classifier_models (snd (train_and_replace env req db)) =
           filter (\<lambda>row. model_document_field row \<noteq> field_uid (req_field req))
             (classifier_models db) @ [m\<lparr>model_pk := Some (next_model_pk db)\<rparr>]"
    and "document_fields (snd (train_and_replace env req db)) = document_fields db"
    and "train_calls (snd (train_and_replace env req db)) = train_calls db @ [req]"
    and "fst (train_and_replace env req db) = Inr (Some (m\<lparr>model_pk := Some (next_model_pk db)\<rparr>))"
  using assms
  by (simp_all add: train_and_replace_def save_classifier_model_def delete_models_of_field_def
        Let_def)

lemma train_and_replace_no_model:
  assumes "train_document_field_detector_model env req = Inr None"
  shows "train_and_replace env req db = (Inr None, db\<lparr>train_calls := train_calls db @ [req]\<rparr>)"
  using assms by (simp add: train_and_replace_def Let_def)

lemma train_and_replace_raises:
  assumes "train_document_field_detector_model env req = Inl e"
  shows "train_and_replace env req db = (Inl e, db\<lparr>train_calls := train_calls db @ [req]\<rparr>)"
  using assms by (simp add: train_and_replace_def Let_def)

lemma train_and_replace_fields [simp]:
  "document_fields (snd (train_and_replace env req db)) = document_fields db"
  by (simp add: train_and_replace_def save_classifier_model_def delete_models_of_field_def
        Let_def split: sum.splits option.splits prod.splits)

lemma train_and_replace_calls [simp]:
  "train_calls (snd (train_and_replace env req db)) = train_calls db @ [req]"
  by (simp add: train_and_replace_def save_classifier_model_def delete_models_of_field_def
        Let_def split: sum.splits option.splits prod.splits)

lemma plan_tests_tables [simp]:
  "classifier_models (plan_tests env kw field new_model db) = classifier_models db"
  "document_fields (plan_tests env kw field new_model db) = document_fields db"
  "train_calls (plan_tests env kw field new_model db) = train_calls db"
  by (simp_all add: plan_tests_def Let_def split: option.splits)

lemma filter_own_models:
  "model_document_field m = uid \<Longrightarrow>
   filter (\<lambda>row. model_document_field row = uid)
     (filter (\<lambda>row. model_document_field row \<noteq> uid) rows @ [m]) = [m]"
  by (induction rows) simp_all

lemma train_model_for_field_unfold:
  "get_document_field uid db = Some field \<Longrightarrow>
   snd (train_model_for_field env uid db) =
     snd (train_and_replace env
            \<lparr>req_field = field, req_train_data_project_ids = None, req_options = None\<rparr> db)"
  by (simp add: train_model_for_field_def split: prod.splits sum.splits)

lemma train_model_for_dirty_field_unfold:
  "get_document_field uid db = Some field \<Longrightarrow> can_retrain env field \<Longrightarrow>
   get_approved_documents_number env (field\<lparr>dirty := False\<rparr>) = Inr n \<Longrightarrow>
   trained_after_documents_number field \<le> n \<Longrightarrow>
   snd (train_model_for_dirty_field env uid db) =
     snd (train_and_replace env
            \<lparr>req_field = field\<lparr>dirty := False\<rparr>, req_train_data_project_ids = None,
             req_options = None\<rparr> (save_document_field (field\<lparr>dirty := False\<rparr>) db))"
  by (simp add: train_model_for_dirty_field_def Let_def split: prod.splits sum.splits)

lemma TrainAndTest_process_unfold:
  "get_document_field (document_field_id kw) db = Some field \<Longrightarrow> \<not> skip_training kw \<Longrightarrow>
   classifier_models (snd (TrainAndTest_process env kw db)) =
     classifier_models (snd (train_and_replace env
            \<lparr>req_field = field,
             req_train_data_project_ids = train_data_project_ids kw,
             req_options = Some (use_only_confirmed_field_values_for_training kw,
                                 split_and_log_out_of_sample_test_report kw)\<rparr> db))"
  by (simp add: TrainAndTest_process_def split: prod.splits sum.splits)

lemma save_document_field_tables [simp]:
  "classifier_models (save_document_field f db) = classifier_models db"
  "next_model_pk (save_document_field f db) = next_model_pk db"
  "train_calls (save_document_field f db) = train_calls db"
  by (simp_all add: save_document_field_def)

lemma find_after_save:
  "find (\<lambda>f. field_uid f = uid) rows = Some field \<Longrightarrow> field_uid field' = uid \<Longrightarrow>
   find (\<lambda>f. field_uid f = uid)
     (map (\<lambda>row. if field_uid row = field_uid field' then field' else row) rows) = Some field'"
  by (induction rows) (auto split: if_splits)

lemma get_document_field_uid:
  "get_document_field uid db = Some field \<Longrightarrow> field_uid field = uid"
  by (auto simp: get_document_field_def find_Some_iff)


lemma train_and_replace_frame:
  "train_and_replace env req db = (r, db') \<Longrightarrow>
   document_fields db' = document_fields db \<and> train_calls db' = train_calls db @ [req]"
  using train_and_replace_fields [of env req db] train_and_replace_calls [of env req db]
  by simp

lemma dirty_field_rows_after:
  assumes "get_document_field uid db = Some field" and "can_retrain env field"
  shows "document_fields (snd (train_model_for_dirty_field env uid db)) =
           document_fields (save_document_field (field\<lparr>dirty := False\<rparr>) db)"
proof (cases "get_approved_documents_number env (field\<lparr>dirty := False\<rparr>)")
  case (Inl e)
  with assms show ?thesis
    by (simp add: train_model_for_dirty_field_def Let_def)
next
  case (Inr n)
  show ?thesis
  proof (cases "trained_after_documents_number field \<le> n")
    case True
    with assms Inr show ?thesis
      by (simp add: train_model_for_dirty_field_unfold)
  next
    case False
    with assms Inr show ?thesis
      by (simp add: train_model_for_dirty_field_def Let_def)
  qed
qed

text \<open>Environments and tables for evaluation.\<close>

definition demo_field :: document_field where
  "demo_field = \<lparr>field_uid = ''f1'', field_code = ''term'', field_document_type = ''lease'',
                  dirty = True, trained_after_documents_number = 2\<rparr>"

definition demo_other_field :: document_field where
  "demo_other_field = \<lparr>field_uid = ''f2'', field_code = ''party'', field_document_type = ''lease'',
                        dirty = True, trained_after_documents_number = 5\<rparr>"

definition demo_model :: "nat option \<Rightarrow> string \<Rightarrow> classifier_model" where
  "demo_model key uid = \<lparr>model_pk = key, model_document_field = uid,
                          field_detection_accuracy = None,
                          classifier_accuracy_report_in_sample = None,
                          classifier_accuracy_report_out_of_sample = None\<rparr>"

definition demo_train_env :: train_env where
  "demo_train_env =
     \<lparr>train_document_field_detector_model =
        (\<lambda>req. if field_uid (req_field req) = ''f1'' then Inr (Some (demo_model None ''f1''))
                else Inr None),
      can_retrain = (\<lambda>field. True),
      is_detectable = (\<lambda>field. True),
      get_approved_documents_number = (\<lambda>field. Inr 3),
      documents_of_projects = (\<lambda>projects document_type. [41, 42]),
      get_qs_active_modified_document_ids = (\<lambda>field projects. []),
      get_qs_finished_document_ids = (\<lambda>document_type projects. [])\<rparr>"

definition demo_train_db :: train_db where
  "demo_train_db =
     \<lparr>document_fields = [demo_field, demo_other_field],
      classifier_models = [demo_model (Some 1) ''f1'', demo_model (Some 2) ''f2''],
      next_model_pk = 3, train_calls = [], test_sub_tasks = [], join_sub_tasks = []\<rparr>"

definition demo_kwargs :: train_and_test_kwargs where
  "demo_kwargs =
     \<lparr>document_field_id = ''f1'', skip_training = False,
      use_only_confirmed_field_values_for_training = None, train_data_project_ids = None,
      split_and_log_out_of_sample_test_report = None, skip_testing = False,
      use_only_confirmed_field_values_for_testing = False, test_data_projects_ids = Some [9]\<rparr>"

lemma demo_get_fields:
  "get_document_field ''f1'' demo_train_db = Some demo_field"
  "get_document_field ''f2'' demo_train_db = Some demo_other_field"
  by (simp_all add: get_document_field_def demo_train_db_def demo_field_def demo_other_field_def)

subsection \<open>A new model replaces the stored ones\<close>

text \<open>
  Claim C4.  In each of the three training operations, once the field is found and the
  trainer is reached (for the dirty field: it can be retrained and has enough approved
  documents; for \<^verbatim>\<open>TrainAndTest\<close>: training is not skipped): when the trainer returns
  a new, unsaved model, the stored classifier models of the field are deleted and the new
  one is saved, the models of other fields staying as they were, so that the new model,
  being a model of the field, is the only one the table holds for it; when the trainer
  returns no model, the table of classifier models is unchanged.
\<close>

theorem new_classifier_model_replaces_stored_ones:
  fixes env :: train_env and db :: train_db and kw :: train_and_test_kwargs
  defines "plain \<equiv> (\<lambda>field. \<lparr>req_field = field, req_train_data_project_ids = None,
                                req_options = None\<rparr>)"
    and "asked \<equiv> (\<lambda>field. \<lparr>req_field = field,
                      req_train_data_project_ids = train_data_project_ids kw,
                      req_options = Some (use_only_confirmed_field_values_for_training kw,
                                          split_and_log_out_of_sample_test_report kw)\<rparr>)"
    and "replaced \<equiv> (\<lambda>uid m. filter (\<lambda>row. model_document_field row \<noteq> uid)
                        (classifier_models db) @ [m\<lparr>model_pk := Some (next_model_pk db)\<rparr>])"
  shows
    "(get_document_field uid db = Some field \<longrightarrow>
        (train_document_field_detector_model env (plain field) = Inr (Some m) \<and> model_pk m = None
           \<longrightarrow> classifier_models (snd (train_model_for_field env uid db)) = replaced uid m
               \<and> (model_document_field m = uid \<longrightarrow>
                    filter (\<lambda>row. model_document_field row = uid)
                      (classifier_models (snd (train_model_for_field env uid db)))
                    = [m\<lparr>model_pk := Some (next_model_pk db)\<rparr>]))
      \<and> (train_document_field_detector_model env (plain field) = Inr None
           \<longrightarrow> classifier_models (snd (train_model_for_field env uid db)) = classifier_models db))
   \<and> (get_document_field uid db = Some field \<and> can_retrain env field
        \<and> get_approved_documents_number env (field\<lparr>dirty := False\<rparr>) = Inr n
        \<and> trained_after_documents_number field \<le> n \<longrightarrow>
        (train_document_field_detector_model env (plain (field\<lparr>dirty := False\<rparr>)) = Inr (Some m)
           \<and> model_pk m = None
           \<longrightarrow> classifier_models (snd (train_model_for_dirty_field env uid db)) = replaced uid m
               \<and> (model_document_field m = uid \<longrightarrow>
                    filter (\<lambda>row. model_document_field row = uid)
                      (classifier_models (snd (train_model_for_dirty_field env uid db)))
                    = [m\<lparr>model_pk := Some (next_model_pk db)\<rparr>]))
      \<and> (train_document_field_detector_model env (plain (field\<lparr>dirty := False\<rparr>)) = Inr None
           \<longrightarrow> classifier_models (snd (train_model_for_dirty_field env uid db))
                 = classifier_models db))
   \<and> (get_document_field (document_field_id kw) db = Some field \<and> \<not> skip_training kw \<longrightarrow>
        (train_document_field_detector_model env (asked field) = Inr (Some m) \<and> model_pk m = None
           \<longrightarrow> classifier_models (snd (TrainAndTest_process env kw db))
                 = replaced (document_field_id kw) m
               \<and> (model_document_field m = document_field_id kw \<longrightarrow>
                    filter (\<lambda>row. model_document_field row = document_field_id kw)
                      (classifier_models (snd (TrainAndTest_process env kw db)))
                    = [m\<lparr>model_pk := Some (next_model_pk db)\<rparr>]))
      \<and> (train_document_field_detector_model env (asked field) = Inr None
           \<longrightarrow> classifier_models (snd (TrainAndTest_process env kw db)) = classifier_models db))"
proof -
  have own: "filter (\<lambda>row. model_document_field row = u) (replaced u m')
               = [m'\<lparr>model_pk := Some (next_model_pk db)\<rparr>]"
    if "model_document_field m' = u" for u m'
    unfolding replaced_def using that by (intro filter_own_models) simp
  have one: "classifier_models (snd (train_model_for_field env uid db)) = replaced uid m"
    if "get_document_field uid db = Some field"
      "train_document_field_detector_model env (plain field) = Inr (Some m)" "model_pk m = None"
    using that train_and_replace_new_model(1) [of env "plain field" m db]
      get_document_field_uid [of uid db field]
    by (simp add: train_model_for_field_unfold plain_def replaced_def)
  have one_none: "classifier_models (snd (train_model_for_field env uid db)) = classifier_models db"
    if "get_document_field uid db = Some field"
      "train_document_field_detector_model env (plain field) = Inr None"
    using that train_and_replace_no_model [of env "plain field" db]
    by (simp add: train_model_for_field_unfold plain_def)
  have two: "classifier_models (snd (train_model_for_dirty_field env uid db)) = replaced uid m"
    if "get_document_field uid db = Some field" "can_retrain env field"
      "get_approved_documents_number env (field\<lparr>dirty := False\<rparr>) = Inr n"
      "trained_after_documents_number field \<le> n"
      "train_document_field_detector_model env (plain (field\<lparr>dirty := False\<rparr>)) = Inr (Some m)"
      "model_pk m = None"
    using that train_and_replace_new_model(1) [of env "plain (field\<lparr>dirty := False\<rparr>)" m
        "save_document_field (field\<lparr>dirty := False\<rparr>) db"]
      get_document_field_uid [of uid db field]
    by (simp add: train_model_for_dirty_field_unfold plain_def replaced_def)
  have two_none: "classifier_models (snd (train_model_for_dirty_field env uid db))
                    = classifier_models db"
    if "get_document_field uid db = Some field" "can_retrain env field"
      "get_approved_documents_number env (field\<lparr>dirty := False\<rparr>) = Inr n"
      "trained_after_documents_number field \<le> n"
      "train_document_field_detector_model env (plain (field\<lparr>dirty := False\<rparr>)) = Inr None"
    using that train_and_replace_no_model [of env "plain (field\<lparr>dirty := False\<rparr>)"
        "save_document_field (field\<lparr>dirty := False\<rparr>) db"]
    by (simp add: train_model_for_dirty_field_unfold plain_def)
  have three: "classifier_models (snd (TrainAndTest_process env kw db))
                 = replaced (document_field_id kw) m"
    if "get_document_field (document_field_id kw) db = Some field" "\<not> skip_training kw"
      "train_document_field_detector_model env (asked field) = Inr (Some m)" "model_pk m = None"
    using that train_and_replace_new_model(1) [of env "asked field" m db]
      get_document_field_uid [of "document_field_id kw" db field]
      TrainAndTest_process_unfold [of kw db field env]
    by (simp add: asked_def replaced_def)
  have three_none: "classifier_models (snd (TrainAndTest_process env kw db)) = classifier_models db"
    if "get_document_field (document_field_id kw) db = Some field" "\<not> skip_training kw"
      "train_document_field_detector_model env (asked field) = Inr None"
    using that train_and_replace_no_model [of env "asked field" db]
      TrainAndTest_process_unfold [of kw db field env]
    by (simp add: asked_def)
  have one_own: "filter (\<lambda>row. model_document_field row = uid)
                      (classifier_models (snd (train_model_for_field env uid db)))
                    = [m\<lparr>model_pk := Some (next_model_pk db)\<rparr>]"
    if "get_document_field uid db = Some field"
      "train_document_field_detector_model env (plain field) = Inr (Some m)" "model_pk m = None"
      "model_document_field m = uid"
    unfolding one [OF that(1,2,3)] by (rule own [OF that(4)])
  have two_own: "filter (\<lambda>row. model_document_field row = uid)
                      (classifier_models (snd (train_model_for_dirty_field env uid db)))
                    = [m\<lparr>model_pk := Some (next_model_pk db)\<rparr>]"
    if "get_document_field uid db = Some field" "can_retrain env field"
      "get_approved_documents_number env (field\<lparr>dirty := False\<rparr>) = Inr n"
      "trained_after_documents_number field \<le> n"
      "train_document_field_detector_model env (plain (field\<lparr>dirty := False\<rparr>)) = Inr (Some m)"
      "model_pk m = None" "model_document_field m = uid"
    unfolding two [OF that(1,2,3,4,5,6)] by (rule own [OF that(7)])
  have three_own: "filter (\<lambda>row. model_document_field row = document_field_id kw)
                      (classifier_models (snd (TrainAndTest_process env kw db)))
                    = [m\<lparr>model_pk := Some (next_model_pk db)\<rparr>]"
    if "get_document_field (document_field_id kw) db = Some field" "\<not> skip_training kw"
      "train_document_field_detector_model env (asked field) = Inr (Some m)" "model_pk m = None"
      "model_document_field m = document_field_id kw"
    unfolding three [OF that(1,2,3,4)] by (rule own [OF that(5)])
  show ?thesis
    by (intro conjI impI; (elim conjE)?;
        (rule one one_none two two_none three three_none one_own two_own three_own; assumption))
qed

theorem new_classifier_model_replaces_stored_ones_witness:
  "classifier_models (snd (train_model_for_field demo_train_env ''f1'' demo_train_db))
     = [demo_model (Some 2) ''f2'', demo_model (Some 3) ''f1'']
   \<and> classifier_models (snd (train_model_for_field demo_train_env ''f2'' demo_train_db))
     = classifier_models demo_train_db
   \<and> classifier_models (snd (train_model_for_dirty_field demo_train_env ''f1'' demo_train_db))
     = [demo_model (Some 2) ''f2'', demo_model (Some 3) ''f1'']
   \<and> filter (\<lambda>row. model_document_field row = ''f1'')
        (classifier_models (snd (TrainAndTest_process demo_train_env demo_kwargs demo_train_db)))
     = [demo_model (Some 3) ''f1'']"
proof -
  note t1 = new_classifier_model_replaces_stored_ones
              [where env = demo_train_env and db = demo_train_db and kw = demo_kwargs
                 and uid = "''f1''" and field = demo_field and m = "demo_model None ''f1''"
                 and n = 3]
  note t2 = new_classifier_model_replaces_stored_ones
              [where env = demo_train_env and db = demo_train_db and kw = demo_kwargs
                 and uid = "''f2''" and field = demo_other_field and m = "demo_model None ''f1''"
                 and n = 3]
  have trained: "train_document_field_detector_model demo_train_env
           \<lparr>req_field = demo_field, req_train_data_project_ids = None, req_options = None\<rparr>
         = Inr (Some (demo_model None ''f1''))"
    and trained_dirty: "train_document_field_detector_model demo_train_env
           \<lparr>req_field = demo_field\<lparr>dirty := False\<rparr>, req_train_data_project_ids = None,
            req_options = None\<rparr>
         = Inr (Some (demo_model None ''f1''))"
    and trained_asked: "train_document_field_detector_model demo_train_env
           \<lparr>req_field = demo_field,
            req_train_data_project_ids = train_data_project_ids demo_kwargs,
            req_options = Some (use_only_confirmed_field_values_for_training demo_kwargs,
                                split_and_log_out_of_sample_test_report demo_kwargs)\<rparr>
         = Inr (Some (demo_model None ''f1''))"
    and untrained: "train_document_field_detector_model demo_train_env
           \<lparr>req_field = demo_other_field, req_train_data_project_ids = None, req_options = None\<rparr>
         = Inr None"
    by (simp_all add: demo_train_env_def demo_field_def demo_other_field_def)
  have unsaved: "model_pk (demo_model None ''f1'') = None"
    and own: "model_document_field (demo_model None ''f1'') = document_field_id demo_kwargs"
    by (simp_all add: demo_model_def demo_kwargs_def)
  have can: "can_retrain demo_train_env demo_field"
    and count: "get_approved_documents_number demo_train_env (demo_field\<lparr>dirty := False\<rparr>) = Inr 3"
    and enough: "trained_after_documents_number demo_field \<le> 3"
    by (simp_all add: demo_train_env_def demo_field_def)
  have asked_field: "get_document_field (document_field_id demo_kwargs) demo_train_db
                       = Some demo_field"
    and training: "\<not> skip_training demo_kwargs"
    and asked_uid: "document_field_id demo_kwargs = ''f1''"
    by (simp_all add: demo_kwargs_def demo_get_fields)
  have rows: "filter (\<lambda>row. model_document_field row \<noteq> ''f1'') (classifier_models demo_train_db)
                @ [demo_model None ''f1''\<lparr>model_pk := Some (next_model_pk demo_train_db)\<rparr>]
              = [demo_model (Some 2) ''f2'', demo_model (Some 3) ''f1'']"
    and row: "[demo_model None ''f1''\<lparr>model_pk := Some (next_model_pk demo_train_db)\<rparr>]
              = [demo_model (Some 3) ''f1'']"
    by (simp_all add: demo_train_db_def demo_model_def)
  note one = t1 [THEN conjunct1, THEN mp, OF demo_get_fields(1), THEN conjunct1, THEN mp,
                 OF conjI [OF trained unsaved], THEN conjunct1]
  note none = t2 [THEN conjunct1, THEN mp, OF demo_get_fields(2), THEN conjunct2, THEN mp,
                  OF untrained]
  note two = t1 [THEN conjunct2, THEN conjunct1, THEN mp,
                 OF conjI [OF demo_get_fields(1) conjI [OF can conjI [OF count enough]]],
                 THEN conjunct1, THEN mp, OF conjI [OF trained_dirty unsaved], THEN conjunct1]
  note three = t1 [THEN conjunct2, THEN conjunct2, THEN mp, OF conjI [OF asked_field training],
                   THEN conjunct1, THEN mp, OF conjI [OF trained_asked unsaved],
                   THEN conjunct2, THEN mp, OF own]
  have w1: "classifier_models (snd (train_model_for_field demo_train_env ''f1'' demo_train_db))
     = [demo_model (Some 2) ''f2'', demo_model (Some 3) ''f1'']"
    unfolding one by (rule rows)
  have w3: "classifier_models (snd (train_model_for_dirty_field demo_train_env ''f1'' demo_train_db))
     = [demo_model (Some 2) ''f2'', demo_model (Some 3) ''f1'']"
    unfolding two by (rule rows)
  have w4: "filter (\<lambda>row. model_document_field row = ''f1'')
        (classifier_models (snd (TrainAndTest_process demo_train_env demo_kwargs demo_train_db)))
     = [demo_model (Some 3) ''f1'']"
    using three unfolding asked_uid row .
  from w1 none w3 w4 show ?thesis
    by (intro conjI)
qed

subsection \<open>Retraining a dirty field\<close>

text \<open>
  Claim C5.  For a stored field on which \<^verbatim>\<open>can_retrain()\<close> holds,
  \<^verbatim>\<open>train_model_for_dirty_field\<close> saves the field with its dirty flag cleared before
  it asks for the number of approved documents: whatever happens afterwards (the count
  raises, is too small, or the trainer runs), the stored field is the loaded one with
  \<open>dirty = False\<close>.  With a count below \<^verbatim>\<open>trained_after_documents_number\<close> the task
  ends there: the trainer is not called and the classifier models stay.  With a count of
  at least that number the trainer is called, once, for the field.  So the trainer is
  called, and the table of classifier models can change, only when the count is at least
  \<^verbatim>\<open>trained_after_documents_number\<close>.
\<close>

theorem dirty_flag_cleared_before_threshold_check:
  assumes "get_document_field uid db = Some field"
    and "can_retrain env field"
  shows "get_document_field uid (snd (train_model_for_dirty_field env uid db))
           = Some (field\<lparr>dirty := False\<rparr>)
       \<and> (\<forall>n. get_approved_documents_number env (field\<lparr>dirty := False\<rparr>) = Inr n
                \<and> n < trained_after_documents_number field
              \<longrightarrow> train_model_for_dirty_field env uid db
                    = (Inr (), save_document_field (field\<lparr>dirty := False\<rparr>) db))
       \<and> (\<forall>n. get_approved_documents_number env (field\<lparr>dirty := False\<rparr>) = Inr n
                \<and> trained_after_documents_number field \<le> n
              \<longrightarrow> train_calls (snd (train_model_for_dirty_field env uid db))
                    = train_calls db @ [\<lparr>req_field = field\<lparr>dirty := False\<rparr>,
                                         req_train_data_project_ids = None, req_options = None\<rparr>])
       \<and> (train_calls (snd (train_model_for_dirty_field env uid db)) \<noteq> train_calls db
            \<or> classifier_models (snd (train_model_for_dirty_field env uid db))
                 \<noteq> classifier_models db
              \<longrightarrow> (\<exists>n. get_approved_documents_number env (field\<lparr>dirty := False\<rparr>) = Inr n
                       \<and> trained_after_documents_number field \<le> n))"
proof -
  let ?f = "field\<lparr>dirty := False\<rparr>"
  let ?run = "train_model_for_dirty_field env uid db"
  have uid: "field_uid ?f = uid"
    using get_document_field_uid [OF assms(1)] by simp
  have found: "find (\<lambda>f. field_uid f = uid) (document_fields db) = Some field"
    using assms(1) by (simp add: get_document_field_def)
  have stored: "get_document_field uid (snd ?run) = Some ?f"
    unfolding get_document_field_def dirty_field_rows_after [OF assms] save_document_field_def
    using find_after_save [OF found uid] by simp
  have below: "?run = (Inr (), save_document_field ?f db)"
    if "get_approved_documents_number env ?f = Inr n" "n < trained_after_documents_number field"
    for n
    using that assms by (simp add: train_model_for_dirty_field_def Let_def)
  have raised: "?run = (Inl e, save_document_field ?f db)"
    if "get_approved_documents_number env ?f = Inl e" for e
    using that assms by (simp add: train_model_for_dirty_field_def Let_def)
  have enough: "train_calls (snd ?run)
                    = train_calls db @ [\<lparr>req_field = ?f,
                                         req_train_data_project_ids = None, req_options = None\<rparr>]"
    if "get_approved_documents_number env ?f = Inr n" "trained_after_documents_number field \<le> n"
    for n
    using that assms by (simp add: train_model_for_dirty_field_unfold)
  have only: "\<exists>n. get_approved_documents_number env ?f = Inr n
                       \<and> trained_after_documents_number field \<le> n"
    if changed: "train_calls (snd ?run) \<noteq> train_calls db
            \<or> classifier_models (snd ?run) \<noteq> classifier_models db"
  proof (cases "get_approved_documents_number env ?f")
    case (Inl e)
    from raised [OF Inl] changed show ?thesis by simp
  next
    case (Inr n)
    show ?thesis
    proof (cases "trained_after_documents_number field \<le> n")
      case True
      with Inr show ?thesis by blast
    next
      case False
      then have "n < trained_after_documents_number field" by simp
      from below [OF Inr this] changed show ?thesis by simp
    qed
  qed
  show ?thesis
  proof (intro conjI allI impI)
    show "get_document_field uid (snd ?run) = Some ?f" by (rule stored)
  next
    fix n
    assume "get_approved_documents_number env ?f = Inr n \<and> n < trained_after_documents_number field"
    then show "?run = (Inr (), save_document_field ?f db)" using below by blast
  next
    fix n
    assume "get_approved_documents_number env ?f = Inr n \<and> trained_after_documents_number field \<le> n"
    then show "train_calls (snd ?run)
                    = train_calls db @ [\<lparr>req_field = ?f,
                                         req_train_data_project_ids = None, req_options = None\<rparr>]"
      using enough by blast
  next
    assume "train_calls (snd ?run) \<noteq> train_calls db
            \<or> classifier_models (snd ?run) \<noteq> classifier_models db"
    then show "\<exists>n. get_approved_documents_number env ?f = Inr n
                       \<and> trained_after_documents_number field \<le> n"
      by (rule only)
  qed
qed

theorem dirty_flag_cleared_before_threshold_check_witness:
  "get_document_field ''f2'' (snd (train_model_for_dirty_field demo_train_env ''f2'' demo_train_db))
     = Some (demo_other_field\<lparr>dirty := False\<rparr>)
   \<and> train_model_for_dirty_field demo_train_env ''f2'' demo_train_db
     = (Inr (), save_document_field (demo_other_field\<lparr>dirty := False\<rparr>) demo_train_db)
   \<and> get_document_field ''f1'' (snd (train_model_for_dirty_field demo_train_env ''f1'' demo_train_db))
     = Some (demo_field\<lparr>dirty := False\<rparr>)
   \<and> train_calls (snd (train_model_for_dirty_field demo_train_env ''f1'' demo_train_db))
     = [\<lparr>req_field = demo_field\<lparr>dirty := False\<rparr>,
         req_train_data_project_ids = None, req_options = None\<rparr>]"
proof -
  have can: "can_retrain demo_train_env demo_field" "can_retrain demo_train_env demo_other_field"
    by (simp_all add: demo_train_env_def)
  have count2: "get_approved_documents_number demo_train_env (demo_other_field\<lparr>dirty := False\<rparr>)
                  = Inr 3 \<and> 3 < trained_after_documents_number demo_other_field"
    by (simp add: demo_train_env_def demo_other_field_def)
  have count1: "get_approved_documents_number demo_train_env (demo_field\<lparr>dirty := False\<rparr>)
                  = Inr 3 \<and> trained_after_documents_number demo_field \<le> 3"
    by (simp add: demo_train_env_def demo_field_def)
  have none: "train_calls demo_train_db = []"
    by (simp add: demo_train_db_def)
  note t2 = dirty_flag_cleared_before_threshold_check [OF demo_get_fields(2) can(2)]
  note t1 = dirty_flag_cleared_before_threshold_check [OF demo_get_fields(1) can(1)]
  from t2 have a: "get_document_field ''f2''
        (snd (train_model_for_dirty_field demo_train_env ''f2'' demo_train_db))
     = Some (demo_other_field\<lparr>dirty := False\<rparr>)" by (rule conjunct1)
  from t2 count2 have b: "train_model_for_dirty_field demo_train_env ''f2'' demo_train_db
     = (Inr (), save_document_field (demo_other_field\<lparr>dirty := False\<rparr>) demo_train_db)"
    by blast
  from t1 have c: "get_document_field ''f1''
        (snd (train_model_for_dirty_field demo_train_env ''f1'' demo_train_db))
     = Some (demo_field\<lparr>dirty := False\<rparr>)" by (rule conjunct1)
  from t1 count1 have "train_calls (snd (train_model_for_dirty_field demo_train_env ''f1'' demo_train_db))
     = train_calls demo_train_db @ [\<lparr>req_field = demo_field\<lparr>dirty := False\<rparr>,
         req_train_data_project_ids = None, req_options = None\<rparr>]"
    by blast
  with none have d: "train_calls (snd (train_model_for_dirty_field demo_train_env ''f1'' demo_train_db))
     = [\<lparr>req_field = demo_field\<lparr>dirty := False\<rparr>,
         req_train_data_project_ids = None, req_options = None\<rparr>]"
    by simp
  from a b c d show ?thesis by blast
qed


section \<open>Propagating a status change\<close>

text \<open>
  The sub-task \<^verbatim>\<open>_process_documents_status_changed\<close> (an Isabelle name cannot start
  with an underscore, so the constant is \<open>sub_process_documents_status_changed\<close>).  It
  looks the new status up, selects the stored documents among the given ids, looks the
  changing user up when an id is given, deletes the hidden field values of the selected
  documents when the status is not active, and fires the signal.

  The calls to the field repository and to the signal are the effects; they are kept, in
  order, as a list of events.  The tables are the review statuses, the keys of the stored
  documents and the keys of the users.
\<close>

record review_status =
  status_pk :: int
  status_is_active :: bool

record status_db =
  review_statuses :: "review_status list"
  document_pks :: "int list"
  user_pks :: "int list"

datatype status_event =
    DeleteHiddenFieldValuesIfNeeded int
  | FireDocumentsStatusChanged "int list" int "int option"

text \<open>
  \<^verbatim>\<open>User.objects.get(pk=changed_by_user_id) if changed_by_user_id is not None else None\<close>
\<close>

definition get_changed_by_user :: "status_db \<Rightarrow> int option \<Rightarrow> error + int option" where
  "get_changed_by_user db changed_by_user_id =
     (case changed_by_user_id of
        None \<Rightarrow> Inr None
      | Some user_id \<Rightarrow>
          if user_id \<in> set (user_pks db) then Inr (Some user_id) else Inl DoesNotExist)"

definition sub_process_documents_status_changed ::
  "status_db \<Rightarrow> int list \<Rightarrow> int \<Rightarrow> int option \<Rightarrow> status_event list
     \<Rightarrow> (error + unit) \<times> status_event list" where
  "sub_process_documents_status_changed db doc_ids new_status_id changed_by_user_id events =
     (case find (\<lambda>s. status_pk s = new_status_id) (review_statuses db) of
        None \<Rightarrow> (Inl DoesNotExist, events)
      | Some status \<Rightarrow>
          (let docs_qr = filter (\<lambda>pk. pk \<in> set doc_ids) (document_pks db)
           in case get_changed_by_user db changed_by_user_id of
                Inl e \<Rightarrow> (Inl e, events)
              | Inr changed_by_user \<Rightarrow>
                  (let events1 = (if \<not> status_is_active status
                                  then events @ map DeleteHiddenFieldValuesIfNeeded docs_qr
                                  else events)
                   in (Inr (),
                       events1 @ [FireDocumentsStatusChanged docs_qr new_status_id
                                    changed_by_user]))))"

text \<open>Tables for evaluation: status 1 is active, status 2 is not.\<close>

definition demo_status_db :: status_db where
  "demo_status_db =
     \<lparr>review_statuses = [\<lparr>status_pk = 1, status_is_active = True\<rparr>,
                          \<lparr>status_pk = 2, status_is_active = False\<rparr>],
      document_pks = [10, 11, 12],
      user_pks = [7]\<rparr>"

subsection \<open>Hidden values go exactly when the status is not active\<close>

text \<open>
  Claim C6.  When the new status and the changing user are found, the sub-task returns
  and adds to the events: first, if and only if the status is not active, one deletion of
  hidden field values per listed document; then, in both cases, the signal for the listed
  documents with the new status id and the changing user.
\<close>

theorem status_change_deletes_hidden_values_iff_inactive:
  assumes "find (\<lambda>s. status_pk s = new_status_id) (review_statuses db) = Some status"
    and "get_changed_by_user db changed_by_user_id = Inr changed_by_user"
  shows "sub_process_documents_status_changed db doc_ids new_status_id changed_by_user_id events
           = (Inr (),
              events
              @ (if status_is_active status then []
                 else map DeleteHiddenFieldValuesIfNeeded
                        (filter (\<lambda>pk. pk \<in> set doc_ids) (document_pks db)))
              @ [FireDocumentsStatusChanged (filter (\<lambda>pk. pk \<in> set doc_ids) (document_pks db))
                   new_status_id changed_by_user])
       \<and> (\<forall>pk. DeleteHiddenFieldValuesIfNeeded pk
                   \<in> set (drop (length events)
                            (snd (sub_process_documents_status_changed db doc_ids new_status_id
                                    changed_by_user_id events)))
                 \<longleftrightarrow> \<not> status_is_active status \<and> pk \<in> set doc_ids \<and> pk \<in> set (document_pks db))
       \<and> FireDocumentsStatusChanged (filter (\<lambda>pk. pk \<in> set doc_ids) (document_pks db))
            new_status_id changed_by_user
           \<in> set (drop (length events)
                    (snd (sub_process_documents_status_changed db doc_ids new_status_id
                            changed_by_user_id events)))"
proof -
  let ?docs = "filter (\<lambda>pk. pk \<in> set doc_ids) (document_pks db)"
  let ?added = "(if status_is_active status then []
                 else map DeleteHiddenFieldValuesIfNeeded ?docs)
              @ [FireDocumentsStatusChanged ?docs new_status_id changed_by_user]"
  have run: "sub_process_documents_status_changed db doc_ids new_status_id changed_by_user_id events
               = (Inr (), events @ ?added)"
    using assms by (simp add: sub_process_documents_status_changed_def Let_def)
  have added: "drop (length events)
                 (snd (sub_process_documents_status_changed db doc_ids new_status_id
                         changed_by_user_id events)) = ?added"
    unfolding run by simp
  have deleted: "DeleteHiddenFieldValuesIfNeeded pk \<in> set ?added
                 \<longleftrightarrow> \<not> status_is_active status \<and> pk \<in> set doc_ids \<and> pk \<in> set (document_pks db)"
    for pk
    by auto
  have fired: "FireDocumentsStatusChanged ?docs new_status_id changed_by_user \<in> set ?added"
    by simp
  show ?thesis
    unfolding added using run deleted fired by simp
qed

theorem status_change_deletes_hidden_values_iff_inactive_witness:
  "sub_process_documents_status_changed demo_status_db [12, 10, 99] 2 (Some 7) []
     = (Inr (), [DeleteHiddenFieldValuesIfNeeded 10, DeleteHiddenFieldValuesIfNeeded 12,
                 FireDocumentsStatusChanged [10, 12] 2 (Some 7)])
   \<and> sub_process_documents_status_changed demo_status_db [12, 10, 99] 1 None []
     = (Inr (), [FireDocumentsStatusChanged [10, 12] 1 None])"
proof -
  have s2: "find (\<lambda>s. status_pk s = 2) (review_statuses demo_status_db)
              = Some \<lparr>status_pk = 2, status_is_active = False\<rparr>"
    and s1: "find (\<lambda>s. status_pk s = 1) (review_statuses demo_status_db)
              = Some \<lparr>status_pk = 1, status_is_active = True\<rparr>"
    and u7: "get_changed_by_user demo_status_db (Some 7) = Inr (Some 7)"
    and u0: "get_changed_by_user demo_status_db None = Inr None"
    by (simp_all add: demo_status_db_def get_changed_by_user_def)
  have docs: "filter (\<lambda>pk. pk \<in> set [12, 10, 99]) (document_pks demo_status_db) = [10, 12]"
    by (simp add: demo_status_db_def)
  note inactive = status_change_deletes_hidden_values_iff_inactive
                    [OF s2 u7, of "[12, 10, 99]" "[]", THEN conjunct1]
  note active = status_change_deletes_hidden_values_iff_inactive
                    [OF s1 u0, of "[12, 10, 99]" "[]", THEN conjunct1]
  have w1: "sub_process_documents_status_changed demo_status_db [12, 10, 99] 2 (Some 7) []
     = (Inr (), [DeleteHiddenFieldValuesIfNeeded 10, DeleteHiddenFieldValuesIfNeeded 12,
                 FireDocumentsStatusChanged [10, 12] 2 (Some 7)])"
    unfolding inactive docs by simp
  have w2: "sub_process_documents_status_changed demo_status_db [12, 10, 99] 1 None []
     = (Inr (), [FireDocumentsStatusChanged [10, 12] 1 None])"
    unfolding active docs by simp
  from w1 w2 show ?thesis by (intro conjI)
qed

section \<open>Identifying document classes\<close>

text \<open>
  \<^verbatim>\<open>identify_document_classes\<close> selects documents, asks lexnlp's \<^verbatim>\<open>is_contract\<close>
  for each and records the answer.  A document row has the columns the task reads; the
  metadata table maps a document key to the metadata dictionary of the document.  The
  classifier is a parameter: it raises, returns nothing, or returns the flag with the
  probability (of an arbitrary type, as the task only stores it).  The two document
  classes and the metadata key are constants of modules that are not at hand and are
  parameters too.
\<close>

record document =
  doc_pk :: int
  doc_name :: string
  document_class :: "string option"
  doc_type_code :: string
  doc_project_id :: int
  full_text :: "string option"

record 'p classes_env =
  is_contract :: "string \<Rightarrow> error + (bool \<times> 'p) option"
  DocumentClass_CONTRACT :: string
  DocumentClass_GENERIC :: string
  DOC_METADATA_DOCUMENT_CLASS_PROB :: string

text \<open>
  The state: the two tables, and the document objects handed to
  \<^verbatim>\<open>cache_document_fields\<close>, in order.  The task assigns the class to the document
  object it iterates over and saves the metadata row; it has no call that saves the
  document object, so the document table is only read.
\<close>

record 'p classes_state =
  documents_table :: "document list"
  metadata_table :: "int \<rightharpoonup> (string \<rightharpoonup> 'p)"
  cached_documents :: "document list"

text \<open>The query of lines 1312 to 1318; an empty code and a project id of 0 are falsy.\<close>

definition select_documents ::
  "string option \<Rightarrow> bool \<Rightarrow> int option \<Rightarrow> document list \<Rightarrow> document list" where
  "select_documents document_type_code force_recheck project_id docs =
     (let docs1 = (if \<not> force_recheck
                   then filter (\<lambda>d. document_class d = Some [] \<or> document_class d = None) docs
                   else docs);
          docs2 = (case document_type_code of
                     None \<Rightarrow> docs1
                   | Some code \<Rightarrow>
                       if code = [] then docs1 else filter (\<lambda>d. doc_type_code d = code) docs1)
      in case project_id of
           None \<Rightarrow> docs2
         | Some project \<Rightarrow>
             if project = 0 then docs2 else filter (\<lambda>d. doc_project_id d = project) docs2)"

text \<open>
  The loop of lines 1326 to 1357.  \<^verbatim>\<open>DocumentMetadata.objects.get\<close> raises
  \<^verbatim>\<open>DoesNotExist\<close> for a document without a metadata row; nothing catches it, so the
  task ends there, with the rows saved so far.
\<close>

fun classify_documents ::
  "'p classes_env \<Rightarrow> document list \<Rightarrow> 'p classes_state \<Rightarrow> (error + unit) \<times> 'p classes_state" where
  "classify_documents env [] st = (Inr (), st)"
| "classify_documents env (doc # docs) st =
     (case is_contract env (case full_text doc of None \<Rightarrow> [] | Some text \<Rightarrow> text) of
        Inl e \<Rightarrow> classify_documents env docs st
      | Inr None \<Rightarrow> classify_documents env docs st
      | Inr (Some (flag, probability)) \<Rightarrow>
          (case metadata_table st (doc_pk doc) of
             None \<Rightarrow> (Inl DoesNotExist, st)
           | Some meta \<Rightarrow>
               classify_documents env docs
                 (st\<lparr>metadata_table := (metadata_table st)
                        (doc_pk doc \<mapsto> meta(DOC_METADATA_DOCUMENT_CLASS_PROB env \<mapsto> probability)),
                     cached_documents := cached_documents st @
                        [doc\<lparr>document_class :=
                               Some (if flag then DocumentClass_CONTRACT env
                                     else DocumentClass_GENERIC env)\<rparr>]\<rparr>)))"

definition identify_document_classes ::
  "'p classes_env \<Rightarrow> string option \<Rightarrow> bool \<Rightarrow> int option \<Rightarrow> 'p classes_state
     \<Rightarrow> (error + unit) \<times> 'p classes_state" where
  "identify_document_classes env document_type_code force_recheck project_id st =
     classify_documents env
       (select_documents document_type_code force_recheck project_id (documents_table st)) st"

text \<open>
  For evaluation: a classifier that finds a contract in every text that starts with
  \<^verbatim>\<open>A\<close>, with probability 9 on some scale; one unclassified document; no metadata.
\<close>

definition demo_classes_env :: "nat classes_env" where
  "demo_classes_env =
     \<lparr>is_contract = (\<lambda>text. Inr (Some (take 1 text = ''A'', 9))),
      DocumentClass_CONTRACT = ''CONTRACT'',
      DocumentClass_GENERIC = ''GENERIC'',
      DOC_METADATA_DOCUMENT_CLASS_PROB = ''document_class_probability''\<rparr>"

definition demo_document :: document where
  "demo_document =
     \<lparr>doc_pk = 1, doc_name = ''lease.pdf'', document_class = None, doc_type_code = ''lease'',
      doc_project_id = 4, full_text = Some ''Agreement''\<rparr>"

definition demo_classes_state :: "(string \<rightharpoonup> nat) option \<Rightarrow> nat classes_state" where
  "demo_classes_state meta =
     \<lparr>documents_table = [demo_document],
      metadata_table = (\<lambda>pk. if pk = 1 then meta else None),
      cached_documents = []\<rparr>"

subsection \<open>A document without a metadata row\<close>

text \<open>
  Claim C7 says that every selected document for which \<^verbatim>\<open>is_contract\<close> returns a
  result gets its class and has the probability stored in its metadata.  The task
  prepares for a document that has no metadata yet (\<^verbatim>\<open>if not meta: meta =
  DocumentMetadata(document=doc, metadata={})\<close>), but it reads the row with
  \<^verbatim>\<open>objects.get\<close>, which raises instead of returning nothing: on such a document the
  task ends in \<^verbatim>\<open>DoesNotExist\<close>, and neither the class nor the probability is set.
\<close>

theorem identify_document_classes_without_metadata_row:
  "identify_document_classes demo_classes_env None False None (demo_classes_state None)
     = (Inl DoesNotExist, demo_classes_state None)"
  by (simp add: identify_document_classes_def select_documents_def demo_classes_env_def
        demo_classes_state_def demo_document_def)

text \<open>
  With its metadata row the same document is classified as the claim says: the class of
  the document object is \<^verbatim>\<open>CONTRACT\<close> and the probability is stored.
\<close>

lemma identify_document_classes_with_metadata_row:
  "identify_document_classes demo_classes_env None False None
       (demo_classes_state (Some Map.empty))
     = (Inr (),
        \<lparr>documents_table = [demo_document],
         metadata_table = (metadata_table (demo_classes_state (Some Map.empty)))
            (1 \<mapsto> [''document_class_probability'' \<mapsto> 9]),
         cached_documents = [demo_document\<lparr>document_class := Some ''CONTRACT''\<rparr>]\<rparr>)"
  by (simp add: identify_document_classes_def select_documents_def demo_classes_env_def
        demo_classes_state_def demo_document_def)

text \<open>
  The selection and the classification on documents that all have a metadata row: the
  loop returns, every document with a result is handed on with the class chosen by the
  first component of the result, and a document without a result is not handed on.
\<close>

lemma classify_documents_cached:
  assumes "\<forall>d\<in>set docs. metadata_table st (doc_pk d) \<noteq> None"
  shows "\<exists>st'. classify_documents env docs st = (Inr (), st')
           \<and> documents_table st' = documents_table st
           \<and> cached_documents st' = cached_documents st @
               List.map_filter
                 (\<lambda>d. case is_contract env (case full_text d of None \<Rightarrow> [] | Some text \<Rightarrow> text) of
                         Inr (Some (flag, probability)) \<Rightarrow>
                           Some (d\<lparr>document_class :=
                                     Some (if flag then DocumentClass_CONTRACT env
                                           else DocumentClass_GENERIC env)\<rparr>)
                       | _ \<Rightarrow> None) docs
           \<and> dom (metadata_table st') = dom (metadata_table st)"
  using assms
proof (induction docs arbitrary: st)
  case Nil
  then show ?case by (simp add: List.map_filter_simps)
next
  case (Cons doc docs)
  let ?res = "is_contract env (case full_text doc of None \<Rightarrow> [] | Some text \<Rightarrow> text)"
  from Cons.prems obtain meta where meta: "metadata_table st (doc_pk doc) = Some meta"
    by auto
  from Cons.prems have rest: "\<forall>d\<in>set docs. metadata_table st (doc_pk d) \<noteq> None"
    by simp
  show ?case
  proof (cases ?res)
    case (Inl e)
    with Cons.IH [OF rest] show ?thesis
      by (simp add: List.map_filter_simps)
  next
    case (Inr r)
    show ?thesis
    proof (cases r)
      case None
      with Inr Cons.IH [OF rest] show ?thesis
        by (simp add: List.map_filter_simps)
    next
      case (Some fp)
      obtain flag probability where fp: "fp = (flag, probability)" by (cases fp)
      let ?st1 = "st\<lparr>metadata_table := (metadata_table st)
                        (doc_pk doc \<mapsto> meta(DOC_METADATA_DOCUMENT_CLASS_PROB env \<mapsto> probability)),
                     cached_documents := cached_documents st @
                        [doc\<lparr>document_class :=
                               Some (if flag then DocumentClass_CONTRACT env
                                     else DocumentClass_GENERIC env)\<rparr>]\<rparr>"
      have rest1: "\<forall>d\<in>set docs. metadata_table ?st1 (doc_pk d) \<noteq> None"
        using rest by simp
      have dom1: "dom (metadata_table ?st1) = dom (metadata_table st)"
        using meta by auto
      have step: "classify_documents env (doc # docs) st = classify_documents env docs ?st1"
        using Inr Some fp meta by simp
      from Cons.IH [OF rest1] obtain st' where st':
        "classify_documents env docs ?st1 = (Inr (), st')"
        "documents_table st' = documents_table ?st1"
        "cached_documents st' = cached_documents ?st1 @
               List.map_filter
                 (\<lambda>d. case is_contract env (case full_text d of None \<Rightarrow> [] | Some text \<Rightarrow> text) of
                         Inr (Some (flag, probability)) \<Rightarrow>
                           Some (d\<lparr>document_class :=
                                     Some (if flag then DocumentClass_CONTRACT env
                                           else DocumentClass_GENERIC env)\<rparr>)
                       | _ \<Rightarrow> None) docs"
        "dom (metadata_table st') = dom (metadata_table ?st1)"
        by blast
      show ?thesis
        unfolding step using st' dom1 Inr Some fp
        by (simp add: List.map_filter_simps)
    qed
  qed
qed


section \<open>Joining the tests of a field detector model\<close>

text \<open>
  \<^verbatim>\<open>TrainAndTest.join_field_detector_model_tests\<close> reads the results of the test
  sub-tasks of its main task, counts them, and reports the share of the results whose
  value matched.  A result is the dictionary \<^verbatim>\<open>test_field_detector_model\<close> returns;
  a sub-task without a result contributes \<^verbatim>\<open>None\<close>, on which \<^verbatim>\<open>res.get\<close> raises
  \<^verbatim>\<open>AttributeError\<close>.  The results are a parameter (the query on the task table).
\<close>

record test_result =
  text_units_number :: "int option"
  value_matches_expected :: bool
  actual_field_value :: "string option"

text \<open>
  The two dictionaries of counts per value keep their keys in insertion order.
  \<open>count_of\<close> is \<^verbatim>\<open>d.get(k) or 0\<close>; \<open>count_up\<close> is
  \<^verbatim>\<open>if k not in d: d[k] = 0\<close> followed by \<^verbatim>\<open>d[k] += 1\<close>.
\<close>

type_synonym counts = "(string \<times> nat) list"

definition count_of :: "counts \<Rightarrow> string \<Rightarrow> nat" where
  "count_of d k = (case map_of d k of None \<Rightarrow> 0 | Some c \<Rightarrow> c)"

definition count_up :: "string \<Rightarrow> counts \<Rightarrow> counts" where
  "count_up k d = AList.update k (count_of d k + 1) d"

text \<open>\<^verbatim>\<open>if actual_field_value:\<close> holds for a string that is not empty.\<close>

definition counted_value :: "test_result \<Rightarrow> string option" where
  "counted_value res =
     (case actual_field_value res of
        None \<Rightarrow> None
      | Some v \<Rightarrow> if v = [] then None else Some v)"

text \<open>
  The local variables of the loop, in the order \<^verbatim>\<open>test_text_units_number\<close>,
  \<^verbatim>\<open>match_number\<close>, \<^verbatim>\<open>test_doc_number\<close>, \<^verbatim>\<open>matches_per_value\<close>,
  \<^verbatim>\<open>total_per_value\<close>, and one round of the loop (lines 421 to 435).
\<close>

type_synonym tally = "int \<times> nat \<times> nat \<times> counts \<times> counts"

definition tally_result :: "test_result \<Rightarrow> tally \<Rightarrow> tally" where
  "tally_result res t =
     (case t of (test_text_units_number, match_number, test_doc_number, matches_per_value,
                 total_per_value) \<Rightarrow>
        (let total' = (case counted_value res of
                         None \<Rightarrow> total_per_value
                       | Some v \<Rightarrow> count_up v total_per_value);
             units' = test_text_units_number
                        + (case text_units_number res of None \<Rightarrow> 0 | Some n \<Rightarrow> n)
         in if value_matches_expected res
            then (units', match_number + 1, test_doc_number + 1,
                  (case counted_value res of
                     None \<Rightarrow> matches_per_value
                   | Some v \<Rightarrow> count_up v matches_per_value),
                  total')
            else (units', match_number, test_doc_number + 1, matches_per_value, total')))"

fun tally_results :: "test_result option list \<Rightarrow> tally \<Rightarrow> error + tally" where
  "tally_results [] t = Inr t"
| "tally_results (None # rest) t = Inl AttributeError"
| "tally_results (Some res # rest) t = tally_results rest (tally_result res t)"

text \<open>
  Python's \<^verbatim>\<open>/\<close> on two integers raises \<^verbatim>\<open>ZeroDivisionError\<close> on a zero divisor
  and otherwise gives the float next to the quotient.  The model keeps the quotient
  itself, a rational number; rounding is monotone and 0 and 1 are floats, so the float
  lies between 0 and 1 exactly when the quotient does.
\<close>

definition py_truediv :: "nat \<Rightarrow> nat \<Rightarrow> error + rat" where
  "py_truediv a b = (if b = 0 then Inl ZeroDivisionError else Inr (of_nat a / of_nat b))"

text \<open>The dictionary comprehension of lines 461 and 462, over the items of the totals.\<close>

fun accuracy_per_value_of :: "counts \<Rightarrow> counts \<Rightarrow> error + (string \<times> rat) list" where
  "accuracy_per_value_of matches_per_value [] = Inr []"
| "accuracy_per_value_of matches_per_value ((field_value, total_number) # rest) =
     (case py_truediv (count_of matches_per_value field_value) total_number of
        Inl e \<Rightarrow> Inl e
      | Inr a \<Rightarrow>
          (case accuracy_per_value_of matches_per_value rest of
             Inl e \<Rightarrow> Inl e
           | Inr others \<Rightarrow> Inr ((field_value, a) # others)))"

text \<open>
  Lines 439 to 442: with a classifier model id that is truthy (neither \<^verbatim>\<open>None\<close> nor
  0) the model is loaded, its \<^verbatim>\<open>field_detection_accuracy\<close> is set and it is saved.
\<close>

definition get_classifier_model :: "nat \<Rightarrow> train_db \<Rightarrow> classifier_model option" where
  "get_classifier_model k db = find (\<lambda>m. model_pk m = Some k) (classifier_models db)"

definition write_accuracy :: "nat option \<Rightarrow> rat \<Rightarrow> train_db \<Rightarrow> error + train_db" where
  "write_accuracy classifier_model_id accuracy db =
     (case classifier_model_id of
        None \<Rightarrow> Inr db
      | Some k \<Rightarrow>
          if k = 0 then Inr db
          else (case get_classifier_model k db of
                  None \<Rightarrow> Inl DoesNotExist
                | Some classifier_model \<Rightarrow>
                    Inr (snd (save_classifier_model
                               (classifier_model\<lparr>field_detection_accuracy := Some accuracy\<rparr>) db))))"

text \<open>
  The task.  What it logs is what it returns here: the accuracy and, for a choice field,
  the accuracy per value.  \<^verbatim>\<open>TypedField.by(field).is_choice_field\<close> is a parameter.
\<close>

definition join_field_detector_model_tests ::
  "(document_field \<Rightarrow> bool) \<Rightarrow> test_result option list \<Rightarrow> string \<Rightarrow> nat option \<Rightarrow> train_db
     \<Rightarrow> (error + rat \<times> (string \<times> rat) list option) \<times> train_db" where
  "join_field_detector_model_tests is_choice_field results field_uid' classifier_model_id db =
     (case tally_results results (0, 0, 0, [], []) of
        Inl e \<Rightarrow> (Inl e, db)
      | Inr (test_text_units_number, match_number, test_doc_number, matches_per_value,
             total_per_value) \<Rightarrow>
     (case py_truediv match_number test_doc_number of
        Inl e \<Rightarrow> (Inl e, db)
      | Inr accuracy \<Rightarrow>
     (case write_accuracy classifier_model_id accuracy db of
        Inl e \<Rightarrow> (Inl e, db)
      | Inr db1 \<Rightarrow>
     (case get_document_field field_uid' db1 of
        None \<Rightarrow> (Inl DoesNotExist, db1)
      | Some field \<Rightarrow>
          if is_choice_field field then
            (case accuracy_per_value_of matches_per_value total_per_value of
               Inl e \<Rightarrow> (Inl e, db1)
             | Inr accuracy_per_value \<Rightarrow> (Inr (accuracy, Some accuracy_per_value), db1))
          else (Inr (accuracy, None), db1)))))"

subsection \<open>The counts of the loop\<close>

lemma count_of_count_up:
  "count_of (count_up k d) v = (if v = k then count_of d k + 1 else count_of d v)"
  by (simp add: count_of_def count_up_def update_conv')

lemma map_of_count_up:
  "map_of (count_up k d) = (map_of d)(k \<mapsto> count_of d k + 1)"
  by (simp add: count_up_def update_conv')

lemma distinct_count_up: "distinct (map fst d) \<Longrightarrow> distinct (map fst (count_up k d))"
  by (simp add: count_up_def distinct_update)

text \<open>
  What holds of the local variables after every round: no more matches than results,
  per value no more matches than results, and every total that is there is positive.
\<close>

definition tally_ok :: "tally \<Rightarrow> bool" where
  "tally_ok t =
     (case t of (units, matched, docs, matches, totals) \<Rightarrow>
        matched \<le> docs
        \<and> (\<forall>v. count_of matches v \<le> count_of totals v)
        \<and> distinct (map fst totals)
        \<and> (\<forall>v c. map_of totals v = Some c \<longrightarrow> 0 < c))"

lemma tally_result_step:
  assumes "tally_ok (u0, m0, d0, mpv0, tot0)"
  shows "\<exists>u1 mpv1 tot1.
           tally_result res (u0, m0, d0, mpv0, tot0)
             = (u1, m0 + (if value_matches_expected res then 1 else 0), Suc d0, mpv1, tot1)
           \<and> tally_ok (u1, m0 + (if value_matches_expected res then 1 else 0), Suc d0, mpv1, tot1)"
proof (cases "counted_value res")
  case None
  with assms show ?thesis
    by (simp add: tally_result_def tally_ok_def Let_def)
next
  case (Some v)
  have up: "\<forall>w c. map_of (count_up v tot0) w = Some c \<longrightarrow> 0 < c"
    using assms by (auto simp: map_of_count_up tally_ok_def)
  have le1: "\<forall>w. count_of (count_up v mpv0) w \<le> count_of (count_up v tot0) w"
    using assms by (simp add: count_of_count_up tally_ok_def)
  have le2: "\<forall>w. count_of mpv0 w \<le> count_of (count_up v tot0) w"
  proof
    fix w
    from assms have "\<forall>u. count_of mpv0 u \<le> count_of tot0 u" by (simp add: tally_ok_def)
    then have "count_of mpv0 w \<le> count_of tot0 w" and "count_of mpv0 v \<le> Suc (count_of tot0 v)"
      by (simp_all add: le_SucI)
    then show "count_of mpv0 w \<le> count_of (count_up v tot0) w"
      by (simp add: count_of_count_up)
  qed
  have di: "distinct (map fst (count_up v tot0))"
    using assms by (simp add: distinct_count_up tally_ok_def)
  from assms have m: "m0 \<le> d0" by (simp add: tally_ok_def)
  show ?thesis
  proof (cases "value_matches_expected res")
    case True
    with Some up le1 di m show ?thesis
      by (simp add: tally_result_def tally_ok_def Let_def)
  next
    case False
    with Some up le2 di m show ?thesis
      by (simp add: tally_result_def tally_ok_def Let_def)
  qed
qed

lemma tally_results_counts:
  assumes "list_all (\<lambda>r. r \<noteq> None) rs" and "tally_ok (u0, m0, d0, mpv0, tot0)"
  shows "\<exists>u mpv tot.
           tally_results rs (u0, m0, d0, mpv0, tot0)
             = Inr (u, m0 + length (filter (\<lambda>r. value_matches_expected (the r)) rs),
                    d0 + length rs, mpv, tot)
           \<and> tally_ok (u, m0 + length (filter (\<lambda>r. value_matches_expected (the r)) rs),
                        d0 + length rs, mpv, tot)"
  using assms
proof (induction rs arbitrary: u0 m0 d0 mpv0 tot0)
  case Nil
  then show ?case by simp
next
  case (Cons r rs)
  from Cons.prems(1) obtain res where r: "r = Some res" and rest: "list_all (\<lambda>r. r \<noteq> None) rs"
    by auto
  from tally_result_step [OF Cons.prems(2), of res]
  obtain u1 mpv1 tot1 where
    step: "tally_result res (u0, m0, d0, mpv0, tot0)
             = (u1, m0 + (if value_matches_expected res then 1 else 0), Suc d0, mpv1, tot1)"
    and ok: "tally_ok (u1, m0 + (if value_matches_expected res then 1 else 0), Suc d0, mpv1, tot1)"
    by blast
  from Cons.IH [OF rest ok]
  obtain u mpv tot where
    run: "tally_results rs (u1, m0 + (if value_matches_expected res then 1 else 0), Suc d0, mpv1, tot1)
            = Inr (u, m0 + (if value_matches_expected res then 1 else 0)
                        + length (filter (\<lambda>r. value_matches_expected (the r)) rs),
                   Suc d0 + length rs, mpv, tot)"
    and ok': "tally_ok (u, m0 + (if value_matches_expected res then 1 else 0)
                        + length (filter (\<lambda>r. value_matches_expected (the r)) rs),
                   Suc d0 + length rs, mpv, tot)"
    by blast
  have m: "m0 + (if value_matches_expected res then 1 else 0)
             + length (filter (\<lambda>r. value_matches_expected (the r)) rs)
           = m0 + length (filter (\<lambda>r. value_matches_expected (the r)) (r # rs))"
    and d: "Suc d0 + length rs = d0 + length (r # rs)"
    using r by simp_all
  have "tally_results (r # rs) (u0, m0, d0, mpv0, tot0)
          = Inr (u, m0 + length (filter (\<lambda>r. value_matches_expected (the r)) (r # rs)),
                 d0 + length (r # rs), mpv, tot)"
    unfolding m [symmetric] d [symmetric] using r step run by simp
  moreover have "tally_ok (u, m0 + length (filter (\<lambda>r. value_matches_expected (the r)) (r # rs)),
                 d0 + length (r # rs), mpv, tot)"
    unfolding m [symmetric] d [symmetric] by (rule ok')
  ultimately show ?case by blast
qed

lemma quotient_in_unit_interval:
  "a \<le> b \<Longrightarrow> 0 < b \<Longrightarrow> 0 \<le> (of_nat a / of_nat b :: rat) \<and> (of_nat a / of_nat b :: rat) \<le> 1"
  by (simp add: divide_le_eq_1_pos)

lemma accuracy_per_value_of_bounded:
  assumes "\<forall>(v, c)\<in>set items. 0 < c \<and> count_of mpv v \<le> c"
  shows "\<exists>apv. accuracy_per_value_of mpv items = Inr apv
           \<and> list_all (\<lambda>(v, a). 0 \<le> a \<and> a \<le> 1) apv
           \<and> map fst apv = map fst items"
  using assms
proof (induction items)
  case Nil
  then show ?case by simp
next
  case (Cons item items)
  obtain v c where item: "item = (v, c)" by (cases item)
  from Cons.prems item have c: "0 < c" "count_of mpv v \<le> c"
    and rest: "\<forall>(v, c)\<in>set items. 0 < c \<and> count_of mpv v \<le> c"
    by simp_all
  from Cons.IH [OF rest] obtain apv where apv: "accuracy_per_value_of mpv items = Inr apv"
    "list_all (\<lambda>(v, a). 0 \<le> a \<and> a \<le> 1) apv" "map fst apv = map fst items"
    by blast
  from c have div: "py_truediv (count_of mpv v) c = Inr (of_nat (count_of mpv v) / of_nat c)"
    by (simp add: py_truediv_def)
  from quotient_in_unit_interval [OF c(2) c(1)] apv item div show ?case
    by simp
qed

lemma tally_ok_items:
  assumes "tally_ok (u, m, d, mpv, tot)"
  shows "\<forall>(v, c)\<in>set tot. 0 < c \<and> count_of mpv v \<le> c"
proof (clarify, rule conjI)
  fix v c
  assume "(v, c) \<in> set tot"
  with assms have look: "map_of tot v = Some c"
    by (simp add: tally_ok_def)
  with assms show "0 < c" by (simp add: tally_ok_def)
  from assms have "count_of mpv v \<le> count_of tot v" by (simp add: tally_ok_def)
  with look show "count_of mpv v \<le> c" by (simp add: count_of_def)
qed

text \<open>
  The task on results that are all there: the accuracy is the share of matching results,
  the division and the dictionary comprehension never raise, and every accuracy lies
  between 0 and 1.
\<close>

lemma join_on_results:
  assumes "results \<noteq> []" and "list_all (\<lambda>r. r \<noteq> None) results"
  shows "\<exists>apv. list_all (\<lambda>(v, a). 0 \<le> a \<and> a \<le> 1) apv
           \<and> join_field_detector_model_tests is_choice results uid cmid db =
               (case write_accuracy cmid
                       (of_nat (length (filter (\<lambda>r. value_matches_expected (the r)) results))
                          / of_nat (length results)) db of
                  Inl e \<Rightarrow> (Inl e, db)
                | Inr db1 \<Rightarrow>
                    (case get_document_field uid db1 of
                       None \<Rightarrow> (Inl DoesNotExist, db1)
                     | Some field \<Rightarrow>
                         (Inr (of_nat (length (filter (\<lambda>r. value_matches_expected (the r)) results))
                                 / of_nat (length results),
                               if is_choice field then Some apv else None), db1)))"
proof -
  have "tally_ok (0, 0, 0, [], [])"
    by (simp add: tally_ok_def)
  from tally_results_counts [OF assms(2) this]
  obtain u mpv tot where
    run: "tally_results results (0, 0, 0, [], [])
            = Inr (u, length (filter (\<lambda>r. value_matches_expected (the r)) results),
                   length results, mpv, tot)"
    and ok: "tally_ok (u, length (filter (\<lambda>r. value_matches_expected (the r)) results),
                   length results, mpv, tot)"
    by auto
  from accuracy_per_value_of_bounded [OF tally_ok_items [OF ok]]
  obtain apv where apv: "accuracy_per_value_of mpv tot = Inr apv"
    "list_all (\<lambda>(v, a). 0 \<le> a \<and> a \<le> 1) apv"
    by blast
  from assms(1) have div: "py_truediv (length (filter (\<lambda>r. value_matches_expected (the r)) results))
                     (length results)
          = Inr (of_nat (length (filter (\<lambda>r. value_matches_expected (the r)) results))
                   / of_nat (length results))"
    by (simp add: py_truediv_def)
  have "join_field_detector_model_tests is_choice results uid cmid db =
               (case write_accuracy cmid
                       (of_nat (length (filter (\<lambda>r. value_matches_expected (the r)) results))
                          / of_nat (length results)) db of
                  Inl e \<Rightarrow> (Inl e, db)
                | Inr db1 \<Rightarrow>
                    (case get_document_field uid db1 of
                       None \<Rightarrow> (Inl DoesNotExist, db1)
                     | Some field \<Rightarrow>
                         (Inr (of_nat (length (filter (\<lambda>r. value_matches_expected (the r)) results))
                                 / of_nat (length results),
                               if is_choice field then Some apv else None), db1)))"
    by (simp add: join_field_detector_model_tests_def run div apv(1)
          split: sum.splits option.splits)
  with apv(2) show ?thesis by blast
qed

lemma join_without_results:
  "join_field_detector_model_tests is_choice [] uid cmid db = (Inl ZeroDivisionError, db)"
  by (simp add: join_field_detector_model_tests_def py_truediv_def)

lemma write_accuracy_not_given:
  "cmid = None \<or> cmid = Some 0 \<Longrightarrow> write_accuracy cmid accuracy db = Inr db"
  by (auto simp: write_accuracy_def)

lemma write_accuracy_raises:
  "write_accuracy cmid accuracy db = Inl e \<Longrightarrow> e = DoesNotExist"
  by (auto simp: write_accuracy_def split: option.splits if_splits)

lemma write_accuracy_given:
  assumes "k \<noteq> 0" and "get_classifier_model k db = Some cm"
  shows "\<exists>db1. write_accuracy (Some k) accuracy db = Inr db1
           \<and> classifier_models db1 =
               map (\<lambda>row. if model_pk row = Some k
                            then cm\<lparr>field_detection_accuracy := Some accuracy\<rparr> else row)
                 (classifier_models db)"
proof -
  from assms(2) have pk: "model_pk cm = Some k" and mem: "cm \<in> set (classifier_models db)"
    by (auto simp: get_classifier_model_def find_Some_iff)
  from pk mem have ex: "list_ex (\<lambda>row. model_pk row = Some k) (classifier_models db)"
    by (auto simp: list_ex_iff)
  show ?thesis
    using assms pk ex by (simp add: write_accuracy_def save_classifier_model_def)
qed

lemma write_accuracy_fields:
  "write_accuracy cmid accuracy db = Inr db1 \<Longrightarrow> document_fields db1 = document_fields db"
  by (auto simp: write_accuracy_def save_classifier_model_def Let_def
      split: option.splits if_splits)

text \<open>Results for evaluation: three tests of a choice field, two of them matching.\<close>

definition demo_results :: "test_result option list" where
  "demo_results =
     [Some \<lparr>text_units_number = Some 5, value_matches_expected = True,
            actual_field_value = Some ''yes''\<rparr>,
      Some \<lparr>text_units_number = Some 3, value_matches_expected = False,
            actual_field_value = Some ''no''\<rparr>,
      Some \<lparr>text_units_number = None, value_matches_expected = True,
            actual_field_value = Some ''no''\<rparr>]"

subsection \<open>The accuracy needs a result and lies between 0 and 1\<close>

text \<open>
  Claim C9.  Without a collected result the task ends in \<^verbatim>\<open>ZeroDivisionError\<close>, with
  nothing written.  With at least one result, all of them there: the division does not
  raise; the accuracy is the number of matching results divided by the number of results
  and lies between 0 and 1, as does every accuracy per value; and the task returns once
  the classifier model, if asked for, and the field are found.  The accuracy is written
  to a classifier model only when \<^verbatim>\<open>classifier_model_id\<close> is given: without it (or with
  0) the database is as before; with the id of a stored model, that model's row carries
  the accuracy afterwards and no other row changes.
\<close>

theorem join_accuracy_needs_a_result_and_is_bounded:
  fixes results :: "test_result option list"
  defines "share \<equiv> (of_nat (length (filter (\<lambda>r. value_matches_expected (the r)) results))
                       / of_nat (length results) :: rat)"
  shows
    "join_field_detector_model_tests is_choice [] uid cmid db = (Inl ZeroDivisionError, db)
     \<and> (results \<noteq> [] \<and> list_all (\<lambda>r. r \<noteq> None) results \<longrightarrow>
          fst (join_field_detector_model_tests is_choice results uid cmid db)
            \<noteq> Inl ZeroDivisionError
          \<and> 0 \<le> share \<and> share \<le> 1
          \<and> (\<forall>accuracy per_value.
                fst (join_field_detector_model_tests is_choice results uid cmid db)
                  = Inr (accuracy, per_value)
                \<longrightarrow> accuracy = share
                    \<and> (\<forall>apv. per_value = Some apv
                          \<longrightarrow> list_all (\<lambda>(v, a). 0 \<le> a \<and> a \<le> 1) apv))
          \<and> (\<forall>db1 field.
                write_accuracy cmid share db = Inr db1 \<and> get_document_field uid db1 = Some field
                \<longrightarrow> (\<exists>per_value.
                       join_field_detector_model_tests is_choice results uid cmid db
                         = (Inr (share, per_value), db1))))
     \<and> (cmid = None \<or> cmid = Some 0 \<longrightarrow>
          snd (join_field_detector_model_tests is_choice results uid cmid db) = db)
     \<and> (\<forall>k cm. cmid = Some k \<and> k \<noteq> 0 \<and> get_classifier_model k db = Some cm
                \<and> results \<noteq> [] \<and> list_all (\<lambda>r. r \<noteq> None) results
          \<longrightarrow> classifier_models
                 (snd (join_field_detector_model_tests is_choice results uid cmid db))
               = map (\<lambda>row. if model_pk row = Some k
                              then cm\<lparr>field_detection_accuracy := Some share\<rparr> else row)
                   (classifier_models db))"
proof -
  let ?run = "join_field_detector_model_tests is_choice results uid cmid db"
  have all_there: "\<exists>apv. list_all (\<lambda>(v, a). 0 \<le> a \<and> a \<le> 1) apv
           \<and> ?run =
               (case write_accuracy cmid share db of
                  Inl e \<Rightarrow> (Inl e, db)
                | Inr db1 \<Rightarrow>
                    (case get_document_field uid db1 of
                       None \<Rightarrow> (Inl DoesNotExist, db1)
                     | Some field \<Rightarrow>
                         (Inr (share, if is_choice field then Some apv else None), db1)))"
    if "results \<noteq> []" "list_all (\<lambda>r. r \<noteq> None) results"
    unfolding share_def using that by (rule join_on_results)
  have bounded: "0 \<le> share \<and> share \<le> 1" if "results \<noteq> []"
  proof -
    have "length (filter (\<lambda>r. value_matches_expected (the r)) results) \<le> length results"
      by simp
    moreover from that have "0 < length results" by simp
    ultimately show ?thesis
      unfolding share_def by (rule quotient_in_unit_interval)
  qed
  have part2: "fst ?run \<noteq> Inl ZeroDivisionError
          \<and> 0 \<le> share \<and> share \<le> 1
          \<and> (\<forall>accuracy per_value.
                fst ?run = Inr (accuracy, per_value)
                \<longrightarrow> accuracy = share
                    \<and> (\<forall>apv. per_value = Some apv
                          \<longrightarrow> list_all (\<lambda>(v, a). 0 \<le> a \<and> a \<le> 1) apv))
          \<and> (\<forall>db1 field.
                write_accuracy cmid share db = Inr db1 \<and> get_document_field uid db1 = Some field
                \<longrightarrow> (\<exists>per_value. ?run = (Inr (share, per_value), db1)))"
    if ne: "results \<noteq> []" and some: "list_all (\<lambda>r. r \<noteq> None) results"
  proof -
    from all_there [OF ne some] obtain apv where
      apv: "list_all (\<lambda>(v, a). 0 \<le> a \<and> a \<le> 1) apv"
      and run: "?run =
               (case write_accuracy cmid share db of
                  Inl e \<Rightarrow> (Inl e, db)
                | Inr db1 \<Rightarrow>
                    (case get_document_field uid db1 of
                       None \<Rightarrow> (Inl DoesNotExist, db1)
                     | Some field \<Rightarrow>
                         (Inr (share, if is_choice field then Some apv else None), db1)))"
      by blast
    have a: "fst ?run \<noteq> Inl ZeroDivisionError"
      unfolding run
      by (auto split: sum.splits option.splits dest: write_accuracy_raises)
    have b: "accuracy = share
                    \<and> (\<forall>apv'. per_value = Some apv'
                          \<longrightarrow> list_all (\<lambda>(v, a). 0 \<le> a \<and> a \<le> 1) apv')"
      if "fst ?run = Inr (accuracy, per_value)" for accuracy per_value
      using that apv unfolding run
      by (auto split: sum.splits option.splits if_splits)
    have c: "\<exists>per_value. ?run = (Inr (share, per_value), db1)"
      if "write_accuracy cmid share db = Inr db1 \<and> get_document_field uid db1 = Some field"
      for db1 field
      unfolding run using that by simp
    from a bounded [OF ne] b c show ?thesis by blast
  qed
  have part3: "snd ?run = db" if "cmid = None \<or> cmid = Some 0"
    using write_accuracy_not_given [OF that]
    by (simp add: join_field_detector_model_tests_def split: sum.splits option.splits prod.splits)
  have part4: "classifier_models (snd ?run)
               = map (\<lambda>row. if model_pk row = Some k
                              then cm\<lparr>field_detection_accuracy := Some share\<rparr> else row)
                   (classifier_models db)"
    if "cmid = Some k \<and> k \<noteq> 0 \<and> get_classifier_model k db = Some cm
                \<and> results \<noteq> [] \<and> list_all (\<lambda>r. r \<noteq> None) results"
    for k cm
  proof -
    from that have k: "cmid = Some k" "k \<noteq> 0" "get_classifier_model k db = Some cm"
      and ne: "results \<noteq> []" and some: "list_all (\<lambda>r. r \<noteq> None) results"
      by simp_all
    from write_accuracy_given [OF k(2,3), of share] obtain db1 where
      w: "write_accuracy (Some k) share db = Inr db1"
      and rows: "classifier_models db1 =
               map (\<lambda>row. if model_pk row = Some k
                            then cm\<lparr>field_detection_accuracy := Some share\<rparr> else row)
                 (classifier_models db)"
      by blast
    from all_there [OF ne some] obtain apv where
      run: "?run =
               (case write_accuracy cmid share db of
                  Inl e \<Rightarrow> (Inl e, db)
                | Inr db1 \<Rightarrow>
                    (case get_document_field uid db1 of
                       None \<Rightarrow> (Inl DoesNotExist, db1)
                     | Some field \<Rightarrow>
                         (Inr (share, if is_choice field then Some apv else None), db1)))"
      by blast
    have "snd ?run = db1"
      unfolding run using w k(1) by (simp split: option.splits)
    with rows show ?thesis by simp
  qed
  from join_without_results [of is_choice uid cmid db] part2 part3 part4
  show ?thesis by blast
qed

theorem join_accuracy_needs_a_result_and_is_bounded_witness:
  "join_field_detector_model_tests (\<lambda>field. True) [] ''f1'' (Some 1) demo_train_db
     = (Inl ZeroDivisionError, demo_train_db)
   \<and> demo_results \<noteq> [] \<and> list_all (\<lambda>r. r \<noteq> None) demo_results
   \<and> (\<exists>per_value.
        fst (join_field_detector_model_tests (\<lambda>field. True) demo_results ''f1'' (Some 1)
               demo_train_db) = Inr (2 / 3, per_value))
   \<and> classifier_models
        (snd (join_field_detector_model_tests (\<lambda>field. True) demo_results ''f1'' (Some 1)
                demo_train_db))
     = [demo_model (Some 1) ''f1''\<lparr>field_detection_accuracy := Some (2 / 3)\<rparr>,
        demo_model (Some 2) ''f2'']
   \<and> snd (join_field_detector_model_tests (\<lambda>field. True) demo_results ''f1'' None demo_train_db)
     = demo_train_db"
proof -
  note t1 = join_accuracy_needs_a_result_and_is_bounded
              [where is_choice = "\<lambda>field. True" and uid = "''f1''" and cmid = "Some 1"
                 and db = demo_train_db and results = demo_results]
  note t0 = join_accuracy_needs_a_result_and_is_bounded
              [where is_choice = "\<lambda>field. True" and uid = "''f1''" and cmid = None
                 and db = demo_train_db and results = demo_results]
  have ne: "demo_results \<noteq> []" and some: "list_all (\<lambda>r. r \<noteq> None) demo_results"
    by (simp_all add: demo_results_def)
  have share: "(of_nat (length (filter (\<lambda>r. value_matches_expected (the r)) demo_results))
                  / of_nat (length demo_results) :: rat) = 2 / 3"
    by (simp add: demo_results_def)
  have stored: "get_classifier_model 1 demo_train_db = Some (demo_model (Some 1) ''f1'')"
    by (simp add: get_classifier_model_def demo_train_db_def demo_model_def)
  have one: "(1::nat) \<noteq> 0" by simp
  from write_accuracy_given [OF one stored, of "2 / 3"] obtain db1 where
    w: "write_accuracy (Some 1) (2 / 3) demo_train_db = Inr db1"
    by blast
  from w have f: "document_fields db1 = document_fields demo_train_db"
    by (rule write_accuracy_fields)
  have field: "get_document_field ''f1'' db1 = Some demo_field"
    using demo_get_fields(1) f by (simp add: get_document_field_def)
  note none = t1 [THEN conjunct1]
  note with_results = t1 [THEN conjunct2, THEN conjunct1, THEN mp, OF conjI [OF ne some],
                          unfolded share]
  note returns = with_results [THEN conjunct2, THEN conjunct2, THEN conjunct2, THEN conjunct2,
                               THEN spec, THEN spec, THEN mp, OF conjI [OF w field]]
  have a: "\<exists>per_value.
        fst (join_field_detector_model_tests (\<lambda>field. True) demo_results ''f1'' (Some 1)
               demo_train_db) = Inr (2 / 3, per_value)"
    using returns by auto
  have given: "Some (1::nat) = Some 1 \<and> (1::nat) \<noteq> 0
                 \<and> get_classifier_model 1 demo_train_db = Some (demo_model (Some 1) ''f1'')
                 \<and> demo_results \<noteq> [] \<and> list_all (\<lambda>r. r \<noteq> None) demo_results"
    using stored ne some by simp
  note written = t1 [THEN conjunct2, THEN conjunct2, THEN conjunct2, THEN spec, THEN spec,
                     THEN mp, OF given, unfolded share]
  have b: "classifier_models
        (snd (join_field_detector_model_tests (\<lambda>field. True) demo_results ''f1'' (Some 1)
                demo_train_db))
     = [demo_model (Some 1) ''f1''\<lparr>field_detection_accuracy := Some (2 / 3)\<rparr>,
        demo_model (Some 2) ''f2'']"
    unfolding written by (simp add: demo_train_db_def demo_model_def)
  have c: "snd (join_field_detector_model_tests (\<lambda>field. True) demo_results ''f1'' None
                  demo_train_db) = demo_train_db"
    using t0 [THEN conjunct2, THEN conjunct2, THEN conjunct1] by simp
  from none ne some a b c show ?thesis by (intro conjI)
qed


section \<open>Loading a document with its field values\<close>

text \<open>
  \<^verbatim>\<open>LoadDocumentWithFields\<close> builds a document from a dictionary of field values
  given by alias.  The values come from JSON; the values the typed fields extract are
  kept in the same type.  \<open>truthy\<close> is Python's truth value.  \<^verbatim>\<open>str.lower\<close> is
  modelled on ASCII letters.
\<close>

datatype json =
    JNull
  | JBool bool
  | JNum int
  | JStr string
  | JList "json list"
  | JDict "(string \<times> json) list"

fun truthy :: "json \<Rightarrow> bool" where
  "truthy JNull = False"
| "truthy (JBool b) = b"
| "truthy (JNum n) = (n \<noteq> 0)"
| "truthy (JStr s) = (s \<noteq> [])"
| "truthy (JList l) = (l \<noteq> [])"
| "truthy (JDict d) = (d \<noteq> [])"

definition lower_char :: "char \<Rightarrow> char" where
  "lower_char c =
     (case map_of (zip ''ABCDEFGHIJKLMNOPQRSTUVWXYZ'' ''abcdefghijklmnopqrstuvwxyz'') c of
        None \<Rightarrow> c
      | Some l \<Rightarrow> l)"

definition lower :: "string \<Rightarrow> string" where
  "lower s = map lower_char s"

text \<open>
  A document type with its code, its aliases for field codes (a JSON dictionary, or
  nothing) and its fields.  The typed field of a field, which extracts a value from a
  possible value and turns it into JSON (either may raise), and the listing of the file
  storage are collaborators.
\<close>

record document_type =
  type_code :: string
  field_code_aliases :: "(string \<times> string) list option"
  type_fields :: "document_field list"

record load_env =
  extract_from_possible_value_text :: "document_field \<Rightarrow> json \<Rightarrow> error + json"
  field_value_python_to_json :: "document_field \<Rightarrow> json \<Rightarrow> error + json"
  list_documents :: "string \<Rightarrow> string list"

datatype load_warning =
    AliasNotFound string string
  | UnableToCast json string

text \<open>
  Lines 489 to 494: the fields by lower-case code, then the aliases, each pointing to
  what its code pointed to before the aliases were added; an alias of an unknown code
  hides a field of the same name.  A later entry replaces an earlier one.
\<close>

definition field_codes_to_fields :: "document_type \<Rightarrow> (string \<rightharpoonup> document_field)" where
  "field_codes_to_fields dt =
     (let by_code = fold (\<lambda>f m. m(lower (field_code f) \<mapsto> f)) (type_fields dt) Map.empty
      in case field_code_aliases dt of
           None \<Rightarrow> by_code
         | Some aliases \<Rightarrow>
             fold (\<lambda>(field_alias, code) m.
                     if field_alias \<noteq> [] \<and> code \<noteq> []
                     then m(lower field_alias := by_code (lower code)) else m)
               aliases by_code)"

text \<open>
  The loop over the elements of a list value (lines 508 to 513): the first element with
  a truthy extracted value gives the value and ends the loop.
\<close>

fun first_extracted :: "load_env \<Rightarrow> document_field \<Rightarrow> json list \<Rightarrow> error + json option" where
  "first_extracted env field [] = Inr None"
| "first_extracted env field (possible_value_text # rest) =
     (case extract_from_possible_value_text env field possible_value_text of
        Inl e \<Rightarrow> Inl e
      | Inr maybe_value \<Rightarrow>
          if truthy maybe_value
          then (case field_value_python_to_json env field maybe_value of
                  Inl e \<Rightarrow> Inl e
                | Inr value \<Rightarrow> Inr (Some value))
          else first_extracted env field rest)"

text \<open>The body of the \<^verbatim>\<open>try\<close> (lines 507 to 518).\<close>

definition extract_entry_value ::
  "load_env \<Rightarrow> document_field \<Rightarrow> json \<Rightarrow> error + json option" where
  "extract_entry_value env field field_value_text =
     (case field_value_text of
        JList possible_values \<Rightarrow> first_extracted env field possible_values
      | _ \<Rightarrow>
          (case extract_from_possible_value_text env field field_value_text of
             Inl e \<Rightarrow> Inl e
           | Inr maybe_value \<Rightarrow>
               if truthy maybe_value
               then (case field_value_python_to_json env field maybe_value of
                       Inl e \<Rightarrow> Inl e
                     | Inr value \<Rightarrow> Inr (Some value))
               else Inr None))"

text \<open>
  One round of the loop over the given entries (lines 496 to 524): the mapping after the
  round, or the \<^verbatim>\<open>RuntimeError\<close>, with the warnings the round logs.  The mapping from
  fields to values keeps its keys in insertion order.
\<close>

definition load_entry ::
  "bool \<Rightarrow> load_env \<Rightarrow> (string \<rightharpoonup> document_field) \<Rightarrow> string \<Rightarrow> string \<times> json
     \<Rightarrow> (document_field \<times> json) list
     \<Rightarrow> (error + (document_field \<times> json) list) \<times> load_warning list" where
  "load_entry ignore_parsing_errors env codes document_type_code entry fields_to_values =
     (case entry of (field_alias, field_value_text) \<Rightarrow>
        if field_value_text = JNull then (Inr fields_to_values, [])
        else
          (case codes (lower field_alias) of
             None \<Rightarrow> (Inr fields_to_values, [AliasNotFound field_alias document_type_code])
           | Some field \<Rightarrow>
               (case extract_entry_value env field field_value_text of
                  Inr None \<Rightarrow> (Inr fields_to_values, [])
                | Inr (Some value) \<Rightarrow> (Inr (AList.update field value fields_to_values), [])
                | Inl e \<Rightarrow>
                    if ignore_parsing_errors
                    then (Inr fields_to_values, [UnableToCast field_value_text (field_code field)])
                    else (Inl RuntimeError, []))))"

fun load_entries ::
  "bool \<Rightarrow> load_env \<Rightarrow> (string \<rightharpoonup> document_field) \<Rightarrow> string \<Rightarrow> (string \<times> json) list
     \<Rightarrow> (document_field \<times> json) list
     \<Rightarrow> (error + (document_field \<times> json) list) \<times> load_warning list" where
  "load_entries ignore env codes type_code' [] fields_to_values = (Inr fields_to_values, [])"
| "load_entries ignore env codes type_code' (entry # rest) fields_to_values =
     (case load_entry ignore env codes type_code' entry fields_to_values of
        (Inl e, warnings) \<Rightarrow> (Inl e, warnings)
      | (Inr fields_to_values1, warnings) \<Rightarrow>
          (case load_entries ignore env codes type_code' rest fields_to_values1 of
             (result, later) \<Rightarrow> (result, warnings @ later)))"

definition load_field_values ::
  "load_env \<Rightarrow> document_type option \<Rightarrow> (string \<times> json) list \<Rightarrow> bool
     \<Rightarrow> (error + (document_field \<times> json) list) \<times> load_warning list" where
  "load_field_values env document_type' document_fields_alias_to_value ignore_parsing_errors =
     (case document_type' of
        None \<Rightarrow> (Inr [], [])
      | Some dt \<Rightarrow>
          load_entries ignore_parsing_errors env (field_codes_to_fields dt) (type_code dt)
            document_fields_alias_to_value [])"

text \<open>The entries on which the body of the \<^verbatim>\<open>try\<close> raises.\<close>

definition entry_raises ::
  "load_env \<Rightarrow> (string \<rightharpoonup> document_field) \<Rightarrow> string \<times> json \<Rightarrow> bool" where
  "entry_raises env codes entry =
     (case entry of (field_alias, field_value_text) \<Rightarrow>
        field_value_text \<noteq> JNull
        \<and> (case codes (lower field_alias) of
             None \<Rightarrow> False
           | Some field \<Rightarrow> isl (extract_entry_value env field field_value_text)))"

text \<open>
  For evaluation: a typed field that cannot read the text \<^verbatim>\<open>bad\<close>, reads nothing
  from an empty text and reads every other value as it is; a document type with the one
  field \<open>demo_field\<close>, of code \<^verbatim>\<open>term\<close>; a storage with two files under \<^verbatim>\<open>in\<close>.
\<close>

definition demo_load_env :: load_env where
  "demo_load_env =
     \<lparr>extract_from_possible_value_text =
        (\<lambda>field value. if value = JStr ''bad'' then Inl ValueError else Inr value),
      field_value_python_to_json = (\<lambda>field value. Inr value),
      list_documents = (\<lambda>path. if path = ''in'' then [''in/a.json'', ''in/b.json''] else [])\<rparr>"

definition demo_document_type :: document_type where
  "demo_document_type =
     \<lparr>type_code = ''lease'', field_code_aliases = None, type_fields = [demo_field]\<rparr>"

subsection \<open>One entry, and all of them\<close>


lemma load_entry_raising:
  assumes "entry_raises env codes entry"
  shows "\<exists>w. load_entry ignore env codes code entry ftv =
           (if ignore then (Inr ftv, [w]) else (Inl RuntimeError, []))"
  using assms
  by (auto simp: entry_raises_def load_entry_def isl_def split: prod.splits option.splits)

lemma load_entry_returning:
  assumes "\<not> entry_raises env codes entry"
  shows "\<exists>ftv' ws. load_entry ignore env codes code entry ftv = (Inr ftv', ws)"
  using assms
  by (auto simp: entry_raises_def load_entry_def isl_def
      split: prod.splits option.splits sum.splits)

lemma load_entries_step:
  "load_entry ignore env codes code entry ftv = (Inr ftv1, ws) \<Longrightarrow>
   fst (load_entries ignore env codes code (entry # rest) ftv)
     = fst (load_entries ignore env codes code rest ftv1)"
  by (auto split: prod.splits)

lemma load_entries_stop:
  "load_entry ignore env codes code entry ftv = (Inl e, ws) \<Longrightarrow>
   fst (load_entries ignore env codes code (entry # rest) ftv) = Inl e"
  by simp


lemma load_entries_raise_runtime_error:
  "fst (load_entries ignore env codes code entries ftv) = Inl e \<Longrightarrow> e = RuntimeError"
proof (induction entries arbitrary: ftv)
  case Nil
  then show ?case by simp
next
  case (Cons entry entries)
  show ?case
  proof (cases "entry_raises env codes entry")
    case raises: True
    from load_entry_raising [OF raises, of ignore code ftv] obtain w where
      w: "load_entry ignore env codes code entry ftv =
            (if ignore then (Inr ftv, [w]) else (Inl RuntimeError, []))"
      by blast
    show ?thesis
    proof (cases ignore)
      case True
      with w have "load_entry ignore env codes code entry ftv = (Inr ftv, [w])" by simp
      then have "fst (load_entries ignore env codes code (entry # entries) ftv)
                   = fst (load_entries ignore env codes code entries ftv)"
        by (rule load_entries_step)
      with Cons.prems have "fst (load_entries ignore env codes code entries ftv) = Inl e"
        by simp
      then show ?thesis by (rule Cons.IH)
    next
      case False
      with w have "load_entry ignore env codes code entry ftv = (Inl RuntimeError, [])" by simp
      then have "fst (load_entries ignore env codes code (entry # entries) ftv) = Inl RuntimeError"
        by (rule load_entries_stop)
      with Cons.prems show ?thesis by simp
    qed
  next
    case returns: False
    from load_entry_returning [OF returns, of ignore code ftv] obtain ftv' ws where
      "load_entry ignore env codes code entry ftv = (Inr ftv', ws)"
      by blast
    then have "fst (load_entries ignore env codes code (entry # entries) ftv)
                 = fst (load_entries ignore env codes code entries ftv')"
      by (rule load_entries_step)
    with Cons.prems have "fst (load_entries ignore env codes code entries ftv') = Inl e"
      by simp
    then show ?thesis by (rule Cons.IH)
  qed
qed


lemma demo_lower:
  "lower ''term'' = ''term''" "lower ''TERM'' = ''term''" "lower ''Term'' = ''term''"
  "lower ''party'' = ''party''"
  by (simp_all add: lower_def lower_char_def)

lemma demo_field_code: "field_code demo_field = ''term''"
  by (simp add: demo_field_def)

lemma demo_codes:
  "field_codes_to_fields demo_document_type ''term'' = Some demo_field"
  "field_codes_to_fields demo_document_type ''party'' = None"
  by (simp_all add: field_codes_to_fields_def demo_document_type_def demo_field_code demo_lower)

lemma demo_type_code: "type_code demo_document_type = ''lease''"
  by (simp add: demo_document_type_def)

subsection \<open>Skipped entries, list values and values that cannot be read\<close>





subsection \<open>The task: an inline document, then the files of a directory\<close>

text \<open>
  The effects of the task, in order: the warnings logged, the calls that
  \<^verbatim>\<open>load_doc\<close> makes to store a document (the document is saved, its metadata row is
  created unless it is there, each field value is written, and either the detection runs
  or the change signal is fired), and the sub-tasks started.

  Modelled from the spec: \<^verbatim>\<open>run_sub_tasks\<close> of \<^verbatim>\<open>ExtendedTask\<close> is not part of
  the sources at hand; it hands one unit of work per argument tuple to the task queue.
\<close>

datatype load_event =
    LogWarning load_warning
  | SaveDocument "string option" int
  | EnsureDocumentMetadata
  | UpdateFieldValue string json
  | DetectAndCacheFieldValues
  | FireDocumentChanged
  | StartCreateDocument string int bool

text \<open>
  \<^verbatim>\<open>load_doc\<close> as the task calls it: parsing errors are not ignored, so a value that
  cannot be read ends it before anything is stored.
\<close>

definition load_doc ::
  "load_env \<Rightarrow> string option \<Rightarrow> int \<Rightarrow> document_type option \<Rightarrow> (string \<times> json) list \<Rightarrow> bool
     \<Rightarrow> load_event list \<Rightarrow> (error + unit) \<times> load_event list" where
  "load_doc env document_name project_id document_type' field_values_alias_to_value
       run_detect_field_values events =
     (case load_field_values env document_type' field_values_alias_to_value False of
        (Inl e, warnings) \<Rightarrow> (Inl e, events @ map LogWarning warnings)
      | (Inr fields_to_values, warnings) \<Rightarrow>
          (Inr (),
           events @ map LogWarning warnings
           @ [SaveDocument document_name project_id, EnsureDocumentMetadata]
           @ map (\<lambda>(field, value). UpdateFieldValue (field_code field) value) fields_to_values
           @ [if run_detect_field_values then DetectAndCacheFieldValues
              else FireDocumentChanged]))"

text \<open>
  \<^verbatim>\<open>LoadDocumentWithFields.process\<close>.  The project table maps a key to the document
  type of the project.  \<^verbatim>\<open>document_fields\<close> is the keyword argument, if given;
  \<^verbatim>\<open>source_data\<close> is \<open>None\<close> when the keyword is missing (the task reads it with
  \<^verbatim>\<open>kwargs['source_data']\<close>, which raises \<^verbatim>\<open>KeyError\<close>), and otherwise the path,
  if any.
\<close>

definition LoadDocumentWithFields_process ::
  "load_env \<Rightarrow> (int \<times> document_type option) list \<Rightarrow> string option \<Rightarrow> int \<Rightarrow> bool
     \<Rightarrow> (string \<times> json) list option \<Rightarrow> string option option
     \<Rightarrow> load_event list \<Rightarrow> (error + unit) \<times> load_event list" where
  "LoadDocumentWithFields_process env projects document_name project_id
       run_detect_field_values document_fields' source_data events =
     (case map_of projects project_id of
        None \<Rightarrow> (Inl DoesNotExist, events)
      | Some project_type \<Rightarrow>
          (let fields = (case document_fields' of None \<Rightarrow> [] | Some given \<Rightarrow> given)
           in case (if fields \<noteq> []
                    then load_doc env document_name project_id project_type fields
                           run_detect_field_values events
                    else (Inr (), events)) of
                (Inl e, events1) \<Rightarrow> (Inl e, events1)
              | (Inr _, events1) \<Rightarrow>
                  (case source_data of
                     None \<Rightarrow> (Inl KeyError, events1)
                   | Some None \<Rightarrow> (Inr (), events1)
                   | Some (Some path) \<Rightarrow>
                       if path = [] then (Inr (), events1)
                       else
                         (let file_list = list_documents env path
                          in if length file_list = 0 then (Inl RuntimeError, events1)
                             else (Inr (),
                                   events1 @ map (\<lambda>file_path. StartCreateDocument file_path
                                                     project_id run_detect_field_values)
                                               file_list)))))"

lemma load_field_values_raises_runtime_error:
  "fst (load_field_values env document_type' entries ignore) = Inl e \<Longrightarrow> e = RuntimeError"
  by (cases document_type')
     (auto simp: load_field_values_def dest: load_entries_raise_runtime_error)

lemma load_doc_raises_runtime_error:
  "fst (load_doc env name project document_type' entries detect events) = Inl e
   \<Longrightarrow> e = RuntimeError"
  using load_field_values_raises_runtime_error [of env document_type' entries False e]
  by (auto simp: load_doc_def split: prod.splits sum.splits)

lemma load_doc_saves:
  "load_doc env name project document_type' entries detect events = (Inr (), events1)
   \<Longrightarrow> SaveDocument name project \<in> set events1"
  by (auto simp: load_doc_def split: prod.splits sum.splits)

text \<open>
  Claim C8.  For a stored project and a source path that is not empty: when the storage
  lists no file under the path, the task ends in \<^verbatim>\<open>RuntimeError\<close>; a document built
  from inline \<^verbatim>\<open>document_fields\<close> is loaded before the listing is looked at, so its
  effects are there whether the listing is empty or not; and when the listing is not
  empty, the task starts exactly one \<^verbatim>\<open>create_document\<close> sub-task per listed file, in
  the order of the listing.
\<close>

theorem load_document_with_fields_source_data:
  assumes "map_of projects project_id = Some project_type"
    and "path \<noteq> []"
  shows
    "(list_documents env path = [] \<longrightarrow>
        fst (LoadDocumentWithFields_process env projects document_name project_id run_detect
               document_fields' (Some (Some path)) events) = Inl RuntimeError)
     \<and> (\<forall>fields events1.
          document_fields' = Some fields \<and> fields \<noteq> []
          \<and> load_doc env document_name project_id project_type fields run_detect events
              = (Inr (), events1)
          \<longrightarrow> SaveDocument document_name project_id \<in> set events1
              \<and> LoadDocumentWithFields_process env projects document_name project_id run_detect
                  document_fields' (Some (Some path)) events
                = (if list_documents env path = [] then (Inl RuntimeError, events1)
                   else (Inr (),
                         events1 @ map (\<lambda>file_path. StartCreateDocument file_path project_id
                                           run_detect) (list_documents env path))))
     \<and> (document_fields' = None \<or> document_fields' = Some [] \<longrightarrow>
          LoadDocumentWithFields_process env projects document_name project_id run_detect
              document_fields' (Some (Some path)) events
            = (if list_documents env path = [] then (Inl RuntimeError, events)
               else (Inr (),
                     events @ map (\<lambda>file_path. StartCreateDocument file_path project_id
                                      run_detect) (list_documents env path))))"
proof -
  let ?run = "LoadDocumentWithFields_process env projects document_name project_id run_detect
                document_fields' (Some (Some path)) events"
  let ?started = "map (\<lambda>file_path. StartCreateDocument file_path project_id run_detect)
                    (list_documents env path)"
  have without: "?run = (if list_documents env path = [] then (Inl RuntimeError, events)
               else (Inr (), events @ ?started))"
    if "document_fields' = None \<or> document_fields' = Some []"
    using that assms by (auto simp: LoadDocumentWithFields_process_def Let_def)
  have loaded: "?run = (if list_documents env path = [] then (Inl RuntimeError, events1)
                   else (Inr (), events1 @ ?started))"
    if "document_fields' = Some fields" "fields \<noteq> []"
      "load_doc env document_name project_id project_type fields run_detect events
         = (Inr (), events1)"
    for fields events1
    using that assms by (simp add: LoadDocumentWithFields_process_def Let_def)
  have failed: "fst ?run = Inl e"
    if "document_fields' = Some fields" "fields \<noteq> []"
      "fst (load_doc env document_name project_id project_type fields run_detect events) = Inl e"
    for fields e
    using that assms
    by (auto simp: LoadDocumentWithFields_process_def Let_def split: prod.splits sum.splits)
  have empty: "fst ?run = Inl RuntimeError" if no_files: "list_documents env path = []"
  proof (cases "document_fields' = None \<or> document_fields' = Some []")
    case True
    from without [OF True] no_files show ?thesis by simp
  next
    case False
    then obtain fields where fields: "document_fields' = Some fields" "fields \<noteq> []"
      by (cases document_fields') auto
    show ?thesis
    proof (cases "fst (load_doc env document_name project_id project_type fields run_detect
                         events)")
      case (Inl e)
      from load_doc_raises_runtime_error [OF Inl] have "e = RuntimeError" .
      with failed [OF fields Inl] show ?thesis by simp
    next
      case (Inr u)
      then have "load_doc env document_name project_id project_type fields run_detect events
                   = (Inr (), snd (load_doc env document_name project_id project_type fields
                                     run_detect events))"
        by (simp add: prod_eq_iff)
      from loaded [OF fields this] no_files show ?thesis by simp
    qed
  qed
  have second: "\<forall>fields events1.
          document_fields' = Some fields \<and> fields \<noteq> []
          \<and> load_doc env document_name project_id project_type fields run_detect events
              = (Inr (), events1)
          \<longrightarrow> SaveDocument document_name project_id \<in> set events1
              \<and> ?run = (if list_documents env path = [] then (Inl RuntimeError, events1)
                   else (Inr (), events1 @ ?started))"
    using loaded load_doc_saves by blast
  from impI [OF empty] second impI [OF without] show ?thesis
    by (intro conjI)
qed

theorem load_document_with_fields_source_data_witness:
  "LoadDocumentWithFields_process demo_load_env [(4, Some demo_document_type)] (Some ''lease.pdf'')
       4 False (Some [(''term'', JStr ''5 years'')]) (Some (Some ''empty'')) []
     = (Inl RuntimeError,
        [SaveDocument (Some ''lease.pdf'') 4, EnsureDocumentMetadata,
         UpdateFieldValue ''term'' (JStr ''5 years''), FireDocumentChanged])
   \<and> LoadDocumentWithFields_process demo_load_env [(4, Some demo_document_type)] (Some ''lease.pdf'')
       4 False None (Some (Some ''in'')) []
     = (Inr (), [StartCreateDocument ''in/a.json'' 4 False,
                 StartCreateDocument ''in/b.json'' 4 False])"
proof -
  have project: "map_of [(4, Some demo_document_type)] (4::int) = Some (Some demo_document_type)"
    by simp
  have p1: "''empty'' \<noteq> []" and p2: "''in'' \<noteq> []" by simp_all
  have listing: "list_documents demo_load_env ''empty'' = []"
    "list_documents demo_load_env ''in'' = [''in/a.json'', ''in/b.json'']"
    by (simp_all add: demo_load_env_def)
  have doc: "Some [(''term'', JStr ''5 years'')] = Some [(''term'', JStr ''5 years'')]
       \<and> [(''term'', JStr ''5 years'')] \<noteq> []
       \<and> load_doc demo_load_env (Some ''lease.pdf'') 4 (Some demo_document_type)
            [(''term'', JStr ''5 years'')] False []
          = (Inr (), [SaveDocument (Some ''lease.pdf'') 4, EnsureDocumentMetadata,
                      UpdateFieldValue ''term'' (JStr ''5 years''), FireDocumentChanged])"
    by (simp add: load_doc_def load_field_values_def load_entry_def extract_entry_value_def
          demo_load_env_def demo_lower demo_codes demo_type_code demo_field_code)
  note t1 = load_document_with_fields_source_data
      [OF project p1, where env = demo_load_env and document_name = "Some ''lease.pdf''"
         and run_detect = False and document_fields' = "Some [(''term'', JStr ''5 years'')]"
         and events = "[]",
       THEN conjunct2, THEN conjunct1, THEN spec, THEN spec, THEN mp, OF doc, THEN conjunct2]
  note t2 = load_document_with_fields_source_data
      [OF project p2, where env = demo_load_env and document_name = "Some ''lease.pdf''"
         and run_detect = False and document_fields' = None and events = "[]",
       THEN conjunct2, THEN conjunct2, THEN mp, OF disjI1 [OF refl]]
  from t1 t2 show ?thesis
    by (simp add: listing)
qed

end
